theory Spec2Isabelle
  imports Complex_Main "HOL-Library.Char_ord" "HOL-Library.List_Lexorder" "HOL-Library.Sublist"
    "HOL-Library.AList"
begin

section \<open>The process and its surroundings\<close>

text \<open>
  \<^verbatim>\<open>main.py\<close> is an interactive menu around the \<^verbatim>\<open>argocd\<close> and \<^verbatim>\<open>kubectl\<close> executables.
  Everything it does is an effect: it reads the environment, asks on the console, runs
  a subprocess, prints and logs. The model threads a \<open>world\<close> through every function:
  \<^item> \<open>env\<close>: the environment after \<^verbatim>\<open>load_dotenv\<close>, as \<^verbatim>\<open>os.getenv\<close> sees it;
  \<^item> \<open>tool\<close>: what an executable answers to a command line, given the command lines
    run before it (an external tool has state of its own);
  \<^item> \<open>markup\<close>: the texts the console's markup parser accepts. The console reads
    \<^verbatim>\<open>[tag]\<close> and \<^verbatim>\<open>[/tag]\<close> in a text as markup and raises \<^verbatim>\<open>MarkupError\<close> on a
    text it cannot parse, such as one with a closing tag that closes nothing;
  \<^item> \<open>stdin\<close>: what the user will type, one item per read; reading past the end is
    \<^verbatim>\<open>EOFError\<close>, an \<open>Interrupt\<close> is Ctrl-C at the prompt;
  \<^item> \<open>trace\<close>: what the process has done so far, oldest first.
  Strings are lists of code points below 256.
\<close>

datatype stdin_item = Line string | Interrupt

datatype proc_result = NotFound | Exited int string string

datatype exn =
    FileNotFoundError
  | CalledProcessError int "string option" "string option"
  | JSONDecodeError
  | AttributeError
  | TypeError
  | NotRenderableError
  | MarkupError
  | ValueError
  | KeyError
  | IndexError
  | EOFError
  | KeyboardInterrupt
  | SystemExit int

datatype event =
    Print string
  | PrintTable "string option" "string list" "string list list"
  | LogInfo string
  | LogError string
  | Prompted string
  | Answered string string
  | Ran "string list" proc_result

record world =
  env :: "string \<rightharpoonup> string"
  tool :: "string list list \<Rightarrow> string list \<Rightarrow> proc_result"
  markup :: "string \<Rightarrow> bool"
  stdin :: "stdin_item list"
  trace :: "event list"

type_synonym 'a io = "world \<Rightarrow> (exn + 'a) \<times> world"

definition io_return :: "'a \<Rightarrow> 'a io" where
  "io_return x = (\<lambda>w. (Inr x, w))"

definition io_raise :: "exn \<Rightarrow> 'a io" where
  "io_raise e = (\<lambda>w. (Inl e, w))"

definition io_bind :: "'a io \<Rightarrow> ('a \<Rightarrow> 'b io) \<Rightarrow> 'b io" where
  "io_bind m f = (\<lambda>w. case m w of (Inl e, w') \<Rightarrow> (Inl e, w') | (Inr x, w') \<Rightarrow> f x w')"

definition io_seq :: "'a io \<Rightarrow> 'b io \<Rightarrow> 'b io" where
  "io_seq m n = io_bind m (\<lambda>_. n)"

text \<open>
  \<^verbatim>\<open>try: m  except ...\<close>: the handler table \<open>h\<close> gives the handler of an exception the
  \<^verbatim>\<open>except\<close> clauses catch and \<open>None\<close> for one they let through.
\<close>

definition try_except :: "'a io \<Rightarrow> (exn \<Rightarrow> 'a io option) \<Rightarrow> 'a io" where
  "try_except m h = (\<lambda>w. case m w of
      (Inl e, w') \<Rightarrow> (case h e of Some k \<Rightarrow> k w' | None \<Rightarrow> (Inl e, w'))
    | (Inr x, w') \<Rightarrow> (Inr x, w'))"

definition emit :: "event \<Rightarrow> unit io" where
  "emit e = (\<lambda>w. (Inr (), w\<lparr>trace := trace w @ [e]\<rparr>))"

text \<open>
  \<^verbatim>\<open>console.print\<close> of a text the program holds whole: the texts of \<^verbatim>\<open>main.py\<close> are
  well-formed markup, and so are those it builds from its own menu labels and numbers.
\<close>

definition console_print :: "string \<Rightarrow> unit io" where
  "console_print s = emit (Print s)"

text \<open>
  A text that holds a value typed by the user or returned by a tool is parsed as markup
  with that value in it: \<open>markup_checked\<close> raises where the console does not accept the
  text. \<open>console_print_f\<close> is \<^verbatim>\<open>console.print\<close> of such a text, \<open>console_print_table\<close>
  is \<^verbatim>\<open>console.print\<close> of a table, whose cells \<open>cells\<close> hold such values.
\<close>

definition markup_checked :: "string list \<Rightarrow> 'a io \<Rightarrow> 'a io" where
  "markup_checked texts m = (\<lambda>w. if list_all (markup w) texts then m w else (Inl MarkupError, w))"

definition console_print_f :: "string \<Rightarrow> unit io" where
  "console_print_f s = markup_checked [s] (emit (Print s))"

definition console_print_table :: "string option \<Rightarrow> string list \<Rightarrow> string list list \<Rightarrow> string list
    \<Rightarrow> unit io" where
  "console_print_table title headers rows cells =
     markup_checked cells (emit (PrintTable title headers rows))"

definition logger_info :: "string \<Rightarrow> unit io" where
  "logger_info s = emit (LogInfo s)"

definition logger_error :: "string \<Rightarrow> unit io" where
  "logger_error s = emit (LogError s)"

definition os_getenv :: "string \<Rightarrow> string option io" where
  "os_getenv k = (\<lambda>w. (Inr (env w k), w))"

subsection \<open>Python strings\<close>

definition py_isspace :: "char \<Rightarrow> bool" where
  "py_isspace c = ((of_char c :: nat) \<in> {9, 10, 11, 12, 13, 28, 29, 30, 31, 32, 133, 160})"

definition py_strip :: "string \<Rightarrow> string" where
  "py_strip s = rev (dropWhile py_isspace (rev (dropWhile py_isspace s)))"

definition py_lower_char :: "char \<Rightarrow> char" where
  "py_lower_char c = (let n = (of_char c :: nat) in
     if (65 \<le> n \<and> n \<le> 90) \<or> (192 \<le> n \<and> n \<le> 222 \<and> n \<noteq> 215) then char_of (n + 32) else c)"

definition py_lower :: "string \<Rightarrow> string" where
  "py_lower s = map py_lower_char s"

text \<open>\<^verbatim>\<open>s.split(sep)\<close> for a one-character separator: \<open>acc\<close> is the fragment read so far, reversed.\<close>

fun split_acc :: "char \<Rightarrow> string \<Rightarrow> string \<Rightarrow> string list" where
  "split_acc sep acc [] = [rev acc]"
| "split_acc sep acc (c # cs) =
     (if c = sep then rev acc # split_acc sep [] cs else split_acc sep (c # acc) cs)"

definition py_split :: "char \<Rightarrow> string \<Rightarrow> string list" where
  "py_split sep s = split_acc sep [] s"

text \<open>\<^verbatim>\<open>needle in haystack\<close> on strings.\<close>

fun py_in :: "string \<Rightarrow> string \<Rightarrow> bool" where
  "py_in needle [] = (needle = [])"
| "py_in needle (c # cs) = (prefix needle (c # cs) \<or> py_in needle cs)"

text \<open>\<^verbatim>\<open>str(n)\<close> for a natural number and \<^verbatim>\<open>int(s)\<close> for a string of decimal digits.\<close>

fun py_str :: "nat \<Rightarrow> string" where
  "py_str n = (if n < 10 then [char_of (48 + n)] else py_str (n div 10) @ [char_of (48 + n mod 10)])"

declare py_str.simps [simp del]

definition is_digit :: "char \<Rightarrow> bool" where
  "is_digit c = (48 \<le> (of_char c :: nat) \<and> (of_char c :: nat) \<le> 57)"

definition py_int :: "string \<Rightarrow> exn + nat" where
  "py_int s = (if s \<noteq> [] \<and> list_all is_digit s
     then Inr (foldl (\<lambda>a c. 10 * a + (of_char c - 48)) 0 s) else Inl ValueError)"

text \<open>\<^verbatim>\<open>f"{x}"\<close> of a value that is a string or \<^verbatim>\<open>None\<close>.\<close>

definition fmt_opt :: "string option \<Rightarrow> string" where
  "fmt_opt x = (case x of None \<Rightarrow> ''None'' | Some s \<Rightarrow> s)"

subsection \<open>Subprocesses\<close>

record completed =
  returncode :: int
  stdout :: "string option"
  stderr :: "string option"

fun ran_commands :: "event list \<Rightarrow> string list list" where
  "ran_commands [] = []"
| "ran_commands (Ran cmd r # evs) = cmd # ran_commands evs"
| "ran_commands (e # evs) = ran_commands evs"

text \<open>
  \<^verbatim>\<open>subprocess.run(cmd, capture_output=..., text=True, check=...)\<close>. A missing executable is
  \<^verbatim>\<open>FileNotFoundError\<close>; with \<^verbatim>\<open>check\<close>, a non-zero exit status is
  \<^verbatim>\<open>CalledProcessError\<close>. Without \<^verbatim>\<open>capture_output\<close> the output goes to the terminal
  and the captured fields are \<^verbatim>\<open>None\<close>.
\<close>

definition subprocess_run :: "string list \<Rightarrow> bool \<Rightarrow> bool \<Rightarrow> completed io" where
  "subprocess_run cmd capture_output check = (\<lambda>w.
     let res = tool w (ran_commands (trace w)) cmd;
         w' = w\<lparr>trace := trace w @ [Ran cmd res]\<rparr>
     in case res of
          NotFound \<Rightarrow> (Inl FileNotFoundError, w')
        | Exited rc out err \<Rightarrow>
            (let so = (if capture_output then Some out else None);
                 se = (if capture_output then Some err else None)
             in if check \<and> rc \<noteq> 0 then (Inl (CalledProcessError rc so se), w')
                else (Inr \<lparr>returncode = rc, stdout = so, stderr = se\<rparr>, w')))"

subsection \<open>Prompts\<close>

text \<open>
  The prompt classes of the \<^verbatim>\<open>rich\<close> library. A prompt is displayed and a line is read;
  an empty line gives the default when there is one; otherwise the line is processed, and
  an invalid response displays the prompt again. \<open>process\<close> returns \<open>None\<close> for an
  invalid response.
\<close>

fun ask_loop :: "string \<Rightarrow> 'a option \<Rightarrow> (string \<Rightarrow> 'a option) \<Rightarrow> stdin_item list
    \<Rightarrow> (exn + 'a) \<times> stdin_item list \<times> event list" where
  "ask_loop label dflt process [] = (Inl EOFError, [], [Prompted label])"
| "ask_loop label dflt process (Interrupt # rest) = (Inl KeyboardInterrupt, rest, [Prompted label])"
| "ask_loop label dflt process (Line s # rest) =
     (case (if s = [] then dflt else None) of
        Some d \<Rightarrow> (Inr d, rest, [Prompted label])
      | None \<Rightarrow>
         (case process s of
            Some v \<Rightarrow> (Inr v, rest, [Prompted label])
          | None \<Rightarrow> (case ask_loop label dflt process rest of
                       (r, rest', evs) \<Rightarrow> (r, rest', Prompted label # evs))))"

definition ask :: "string \<Rightarrow> 'a option \<Rightarrow> (string \<Rightarrow> 'a option) \<Rightarrow> ('a \<Rightarrow> string) \<Rightarrow> 'a io" where
  "ask label dflt process shown = (\<lambda>w.
     case ask_loop label dflt process (stdin w) of
       (Inl e, rest, evs) \<Rightarrow> (Inl e, w\<lparr>stdin := rest, trace := trace w @ evs\<rparr>)
     | (Inr v, rest, evs) \<Rightarrow>
         (Inr v, w\<lparr>stdin := rest, trace := trace w @ evs @ [Answered label (shown v)]\<rparr>))"

text \<open>\<^verbatim>\<open>Prompt.ask(label, default=..., choices=...)\<close>: the response is stripped and, when
  choices are given, must be one of them.\<close>

definition prompt_process :: "string list option \<Rightarrow> string \<Rightarrow> string option" where
  "prompt_process choices s = (let v = py_strip s in
     case choices of None \<Rightarrow> Some v
     | Some cs \<Rightarrow> (if v \<in> set cs then Some v else None))"

definition Prompt_ask :: "string \<Rightarrow> string option \<Rightarrow> string list option \<Rightarrow> string io" where
  "Prompt_ask label dflt choices = ask label dflt (prompt_process choices) (\<lambda>v. v)"

text \<open>\<^verbatim>\<open>Confirm.ask(label, default=...)\<close>: the response, stripped and in lower case, must be
  \<^verbatim>\<open>y\<close> or \<^verbatim>\<open>n\<close>.\<close>

definition confirm_process :: "string \<Rightarrow> bool option" where
  "confirm_process s = (let v = py_lower (py_strip s) in
     if v \<in> set [''y'', ''n''] then Some (v = ''y'') else None)"

definition Confirm_ask :: "string \<Rightarrow> bool option \<Rightarrow> bool io" where
  "Confirm_ask label dflt = ask label dflt confirm_process (\<lambda>b. if b then ''y'' else ''n'')"

text \<open>A prompt whose label holds a value typed by the user: the label is parsed as markup
  when the prompt is made.\<close>

definition Confirm_ask_f :: "string \<Rightarrow> bool option \<Rightarrow> bool io" where
  "Confirm_ask_f label dflt = markup_checked [label] (Confirm_ask label dflt)"

section \<open>Creating a batch of applications\<close>

text \<open>The values the batch shares, as \<^verbatim>\<open>create_application_batch\<close> holds them in local variables.\<close>

record batch_config =
  repo_url :: string
  revision :: string
  environment :: string
  dest_server :: string
  dest_namespace :: string
  project :: string
  base_command :: "string list"

text \<open>The command line of one item (lines 443 to 454).\<close>

definition batch_command :: "batch_config \<Rightarrow> string \<Rightarrow> string list" where
  "batch_command cfg app_name =
     (let path = app_name @ ''/overlay/'' @ environment cfg
      in [''argocd'', ''app'', ''create'', app_name,
          ''--repo'', repo_url cfg,
          ''--revision'', revision cfg,
          ''--path'', path,
          ''--dest-server'', dest_server cfg,
          ''--dest-namespace'', dest_namespace cfg,
          ''--project'', project cfg] @ base_command cfg)"

text \<open>
  The body of the loop (lines 443 to 468) for one name. The result says whether the loop
  goes on (\<open>False\<close> is \<^verbatim>\<open>break\<close>) and gives the two lists as the body leaves them.
\<close>

definition batch_item :: "batch_config \<Rightarrow> string \<Rightarrow> string list \<times> (string \<times> string) list
    \<Rightarrow> (bool \<times> string list \<times> (string \<times> string) list) io" where
  "batch_item cfg app_name acc = (case acc of (successful_apps, failed_apps) \<Rightarrow>
     (let path = app_name @ ''/overlay/'' @ environment cfg;
          command = batch_command cfg app_name
      in try_except
        (io_seq (console_print_f (''Creating application [cyan]'' @ app_name @ ''[/cyan] with path [dim]''
                   @ [CHR 0x27] @ path @ [CHR 0x27] @ ''[/dim]...''))
          (io_bind (subprocess_run command True True) (\<lambda>_.
             io_return (True, successful_apps @ [app_name], failed_apps))))
        (\<lambda>e. case e of
           CalledProcessError rc out err \<Rightarrow> Some
             (case err of
                None \<Rightarrow> io_raise AttributeError
              | Some s \<Rightarrow>
                 (let error_message = py_strip s;
                      failed_apps' = failed_apps @ [(app_name, error_message)]
                  in io_seq (logger_error (''Failed to create application '' @ [CHR 0x27] @ app_name
                               @ [CHR 0x27] @ ''. Stderr: '' @ error_message))
                    (io_seq (console_print_f (''[bold red]  -> Error creating '' @ [CHR 0x27] @ app_name
                               @ [CHR 0x27] @ ''.[/bold red]''))
                    (io_bind (Confirm_ask ''An error occurred. Continue with the next application?'' None)
                       (\<lambda>go. if \<not> go
                          then io_seq (console_print ''[yellow]Batch creation aborted by user.[/yellow]'')
                                 (io_return (False, successful_apps, failed_apps'))
                          else io_return (True, successful_apps, failed_apps'))))))
         | _ \<Rightarrow> None)))"

fun batch_loop :: "batch_config \<Rightarrow> string list \<Rightarrow> string list \<times> (string \<times> string) list
    \<Rightarrow> (string list \<times> (string \<times> string) list) io" where
  "batch_loop cfg [] acc = io_return acc"
| "batch_loop cfg (app_name # rest) acc =
     io_bind (batch_item cfg app_name acc)
       (\<lambda>(go, acc'). if go then batch_loop cfg rest acc' else io_return acc')"

text \<open>The rows of the summary table (lines 476 to 480).\<close>

definition summary_rows :: "string list \<Rightarrow> (string \<times> string) list \<Rightarrow> string list list" where
  "summary_rows successful_apps failed_apps =
     map (\<lambda>app_name. [app_name, ''[green]Success[/green]'', ''Application created.'']) successful_apps
     @ map (\<lambda>(app_name, error). [app_name, ''[red]Failed[/red]'', error]) failed_apps"

text \<open>The names of the batch (line 411).\<close>

definition batch_names :: "string \<Rightarrow> string list" where
  "batch_names app_names_str =
     map py_strip (filter (\<lambda>name. py_strip name \<noteq> []) (py_split (CHR '','') app_names_str))"

definition create_application_batch :: "unit io" where
  "create_application_batch =
     io_seq (console_print ''\<newline>[bold]Create a Batch of ArgoCD Applications[/bold]'')
    (io_bind (Prompt_ask ''Enter application names (comma-separated)'' None None) (\<lambda>app_names_str.
     let app_names = batch_names app_names_str in
     if app_names = []
     then io_seq (console_print ''[yellow]No application names entered. Aborting.[/yellow]'') (io_return ())
     else
       io_seq (console_print ''\<newline>[bold]Enter shared configuration for the batch:[/bold]'')
      (io_bind (Prompt_ask ''Repository URL'' None None) (\<lambda>repo_url.
       io_bind (Prompt_ask ''Target branch/revision'' (Some ''HEAD'') None) (\<lambda>revision.
       io_bind (Prompt_ask ''Environment (e.g., dev, test, uat, prod)'' None None) (\<lambda>environment.
       io_bind (Prompt_ask ''Destination cluster URL'' (Some ''https://kubernetes.default.svc'') None) (\<lambda>dest_server.
       io_bind (Prompt_ask ''Destination namespace'' None None) (\<lambda>dest_namespace.
       io_bind (Prompt_ask ''ArgoCD Project'' (Some ''default'') None) (\<lambda>project.
       io_bind (Prompt_ask ''Enable automated sync for all apps?'' (Some ''n'') (Some [''y'', ''n''])) (\<lambda>enable_auto_sync.
       io_bind
         (if enable_auto_sync = ''y''
          then
            io_bind (Prompt_ask ''Enable auto-pruning for all apps?'' (Some ''n'') (Some [''y'', ''n''])) (\<lambda>enable_prune.
            io_bind (Prompt_ask ''Enable self-healing for all apps?'' (Some ''n'') (Some [''y'', ''n''])) (\<lambda>enable_self_heal.
            io_return ([''--sync-policy'', ''automated'']
              @ (if enable_prune = ''y'' then [''--auto-prune''] else [])
              @ (if enable_self_heal = ''y'' then [''--self-heal''] else []))))
          else io_return []) (\<lambda>base_command.
       io_seq (console_print ''\<newline>[bold]Starting batch creation...[/bold]'')
      (io_bind
         (batch_loop \<lparr>repo_url = repo_url, revision = revision, environment = environment,
             dest_server = dest_server, dest_namespace = dest_namespace, project = project,
             base_command = base_command\<rparr> app_names ([], [])) (\<lambda>(successful_apps, failed_apps).
       io_seq (console_print ''\<newline>[bold]Batch Creation Summary[/bold]'')
      (io_seq (console_print_table None [''Application Name'', ''Status'', ''Details / Error Message'']
                 (summary_rows successful_apps failed_apps)
                 (successful_apps @ concat (map (\<lambda>(app_name, error). [app_name, error]) failed_apps)))
      (console_print ''\<newline>[bold]Batch processing finished.[/bold]'')))))))))))))))"

section \<open>Logging in\<close>

text \<open>\<^verbatim>\<open>x or m\<close> where \<open>x\<close> is the result of \<^verbatim>\<open>os.getenv\<close>: \<^verbatim>\<open>None\<close> and the empty string are
  false, and \<open>m\<close> runs only then.\<close>

definition py_or :: "string option \<Rightarrow> string io \<Rightarrow> string io" where
  "py_or x m = (case x of None \<Rightarrow> m | Some v \<Rightarrow> (if v = [] then m else io_return v))"

text \<open>The command line of both logins (lines 42 to 48 and 80 to 86).\<close>

definition login_command :: "string \<Rightarrow> string \<Rightarrow> string \<Rightarrow> bool \<Rightarrow> string list" where
  "login_command server_address argo_username argo_password insecure =
     [''argocd'', ''login'', server_address,
      ''--username'', argo_username,
      ''--password'', argo_password] @ (if insecure then [''--insecure''] else [])"

definition login_to_argocd :: "bool io" where
  "login_to_argocd =
     io_bind (os_getenv ''ARGO_HOST'') (\<lambda>e_host.
     io_bind (py_or e_host (Prompt_ask ''Enter ArgoCD host'' (Some ''localhost'') None)) (\<lambda>argo_host.
     io_bind (os_getenv ''ARGO_PORT'') (\<lambda>e_port.
     io_bind (py_or e_port (Prompt_ask ''Enter ArgoCD port'' (Some ''8080'') None)) (\<lambda>argo_port.
     io_bind (os_getenv ''ARGO_USERNAME'') (\<lambda>e_username.
     io_bind (py_or e_username (Prompt_ask ''Enter ArgoCD username'' None None)) (\<lambda>argo_username.
     io_bind (os_getenv ''ARGO_PASSWORD'') (\<lambda>e_password.
     io_bind (py_or e_password (Prompt_ask ''Enter ArgoCD password'' None None)) (\<lambda>argo_password.
     io_bind (os_getenv ''ARGO_INSECURE_SKIP_VERIFY'') (\<lambda>e_skip.
     let skip_verify_str = py_lower (case e_skip of None \<Rightarrow> ''false'' | Some v \<Rightarrow> v);
         insecure = (skip_verify_str \<in> set [''true'', ''1'', ''yes'']);
         server_address = argo_host @ '':'' @ argo_port
     in
     io_seq (console_print_f (''Attempting to log in to [cyan]'' @ server_address @ ''[/cyan]...''))
    (let command = login_command server_address argo_username argo_password insecure in
     try_except
       (io_bind (subprocess_run command True True) (\<lambda>result.
        io_seq (logger_info (''Successfully logged in: '' @ fmt_opt (stdout result)))
       (io_seq (console_print ''[green]Authentication successful.[/green]'')
       (io_return True))))
       (\<lambda>e. case e of
          FileNotFoundError \<Rightarrow> Some
            (io_seq (logger_error (''The '' @ [CHR 0x27] @ ''argocd'' @ [CHR 0x27] @ '' command was not found.''))
            (io_seq (console_print (''[bold red]Error: The '' @ [CHR 0x27] @ ''argocd'' @ [CHR 0x27]
                       @ '' CLI is not installed or not in your system'' @ [CHR 0x27] @ ''s PATH.[/bold red]''))
            (io_raise (SystemExit 1))))
        | CalledProcessError rc out err \<Rightarrow> Some
            (io_seq (logger_error (''Failed to log in. Stderr: '' @ fmt_opt err))
            (io_seq (console_print ''[red]Error: Authentication failed. Check credentials and connection details.[/red]'')
            (io_seq (console_print_f (''[dim]'' @ fmt_opt err @ ''[/dim]''))
            (io_return False))))
        | _ \<Rightarrow> None)))))))))))"

definition prompt_and_login :: "bool io" where
  "prompt_and_login =
     io_seq (console_print ''\<newline>[bold]Enter ArgoCD Credentials[/bold]'')
    (io_bind (Prompt_ask ''Enter ArgoCD host'' (Some ''localhost'') None) (\<lambda>argo_host.
     io_bind (Prompt_ask ''Enter ArgoCD port'' (Some ''8080'') None) (\<lambda>argo_port.
     io_bind (Prompt_ask ''Enter ArgoCD username'' None None) (\<lambda>argo_username.
     io_bind (Prompt_ask ''Enter ArgoCD password'' None None) (\<lambda>argo_password.
     io_bind (Confirm_ask ''Skip TLS certificate verification (insecure)?'' (Some True)) (\<lambda>insecure.
     let server_address = argo_host @ '':'' @ argo_port in
     io_seq (console_print_f (''Attempting to log in to [cyan]'' @ server_address @ ''[/cyan]...''))
    (let command = login_command server_address argo_username argo_password insecure in
     try_except
       (io_bind (subprocess_run command True True) (\<lambda>result.
        io_seq (logger_info (''Successfully logged in: '' @ fmt_opt (stdout result)))
       (io_seq (console_print ''[green]Authentication successful.[/green]'')
       (io_return True))))
       (\<lambda>e. case e of
          CalledProcessError rc out err \<Rightarrow> Some
            (io_seq (logger_error (''Failed to log in. Stderr: '' @ fmt_opt err))
            (io_seq (console_print ''[red]Error: Authentication failed.[/red]'')
            (io_seq (console_print_f (''[dim]'' @ fmt_opt err @ ''[/dim]''))
            (io_return False))))
        | _ \<Rightarrow> None))))))))"

section \<open>Installing, checking and removing ArgoCD\<close>

definition manifest_url :: string where
  "manifest_url = ''https://raw.githubusercontent.com/argoproj/argo-cd/stable/manifests/install.yaml''"

text \<open>The two \<^verbatim>\<open>except\<close> clauses the three \<^verbatim>\<open>kubectl\<close> operations share, up to the two
  messages of the second.\<close>

definition kubectl_handlers :: "string \<Rightarrow> string \<Rightarrow> exn \<Rightarrow> unit io option" where
  "kubectl_handlers log_text shown_text e = (case e of
      FileNotFoundError \<Rightarrow> Some
        (io_seq (logger_error (''The '' @ [CHR 0x27] @ ''kubectl'' @ [CHR 0x27] @ '' command was not found.''))
        (console_print (''[bold red]Error: The '' @ [CHR 0x27] @ ''kubectl'' @ [CHR 0x27]
           @ '' CLI is not installed or not in your system'' @ [CHR 0x27] @ ''s PATH.[/bold red]'')))
    | CalledProcessError rc out err \<Rightarrow> Some
        (io_seq (logger_error (log_text @ fmt_opt err))
        (io_seq (console_print shown_text)
        (console_print_f (''[dim]'' @ fmt_opt err @ ''[/dim]''))))
    | _ \<Rightarrow> None)"

definition install_argocd :: "unit io" where
  "install_argocd =
     io_seq (console_print ''\<newline>[bold]Install ArgoCD into a Kubernetes Cluster[/bold]'')
    (io_seq (console_print ''This requires `kubectl` to be installed and configured to access your cluster.'')
    (io_bind (Prompt_ask ''Enter the namespace for ArgoCD installation'' (Some ''argocd'') None) (\<lambda>namespace.
     try_except
       (io_seq (console_print_f (''Attempting to create namespace '' @ [CHR 0x27] @ ''[cyan]'' @ namespace
                  @ ''[/cyan]'' @ [CHR 0x27] @ ''...''))
       (let create_ns_command = [''kubectl'', ''create'', ''namespace'', namespace] in
        io_bind (subprocess_run create_ns_command True False) (\<lambda>result.
        io_seq
          (if returncode result = 0
           then console_print_f (''[green]Namespace '' @ [CHR 0x27] @ namespace @ [CHR 0x27] @ '' created.[/green]'')
           else (case stderr result of
                   None \<Rightarrow> io_raise TypeError
                 | Some err \<Rightarrow>
                     if py_in ''already exists'' err
                     then console_print_f (''[yellow]Namespace '' @ [CHR 0x27] @ namespace @ [CHR 0x27]
                            @ '' already exists. Continuing.[/yellow]'')
                     else io_raise (CalledProcessError (returncode result) (stdout result) (stderr result))))
       (io_seq (console_print ''Applying ArgoCD installation manifest...'')
       (let install_command = [''kubectl'', ''apply'', ''-n'', namespace, ''-f'', manifest_url] in
        io_bind (subprocess_run install_command False True) (\<lambda>_.
        io_seq (logger_info (''Successfully applied ArgoCD manifests to namespace '' @ [CHR 0x27] @ namespace
                  @ [CHR 0x27] @ ''.''))
       (io_seq (console_print_f (''\<newline>[green]ArgoCD installation manifest applied successfully to namespace ''
                  @ [CHR 0x27] @ namespace @ [CHR 0x27] @ ''.[/green]''))
       (console_print (''Run '' @ [CHR 0x27] @ ''Check ArgoCD Installation Status'' @ [CHR 0x27]
          @ '' to see the pods start up.'')))))))))
       (kubectl_handlers ''An error occurred during installation. Stderr: ''
          ''[bold red]An error occurred during the installation process.[/bold red]''))))"

definition check_installation_status :: "unit io" where
  "check_installation_status =
     io_seq (console_print ''\<newline>[bold]Check ArgoCD Installation Status[/bold]'')
    (io_bind (Prompt_ask ''Enter the namespace where ArgoCD is installed'' (Some ''argocd'') None) (\<lambda>namespace.
     let command = [''kubectl'', ''get'', ''pods'', ''-n'', namespace] in
     try_except
       (io_seq (console_print_f (''Fetching pod status in namespace '' @ [CHR 0x27] @ ''[cyan]'' @ namespace
                  @ ''[/cyan]'' @ [CHR 0x27] @ ''...''))
       (io_bind (subprocess_run command False True) (\<lambda>_. io_return ())))
       (kubectl_handlers ''Failed to get pod status. Stderr: ''
          ''[bold red]An error occurred while fetching pod status.[/bold red]'')))"

definition delete_argocd_installation :: "unit io" where
  "delete_argocd_installation =
     io_seq (console_print ''\<newline>[bold red]Uninstall ArgoCD from a Kubernetes Cluster[/bold red]'')
    (io_bind (Prompt_ask ''Enter the namespace where ArgoCD is installed'' (Some ''argocd'') None) (\<lambda>namespace.
     io_seq (console_print_f (''\<newline>[bold yellow]Warning:[/bold yellow] This is a destructive action that will remove all ArgoCD resources from the ''
               @ [CHR 0x27] @ namespace @ [CHR 0x27] @ '' namespace.''))
    (io_bind (Confirm_ask_f (''Are you sure you want to proceed with uninstalling ArgoCD from namespace ''
               @ [CHR 0x27] @ ''[cyan]'' @ namespace @ ''[/cyan]'' @ [CHR 0x27] @ ''?'') None) (\<lambda>proceed.
     if \<not> proceed then console_print ''Uninstallation cancelled.''
     else
     try_except
       (io_seq (console_print_f (''Deleting ArgoCD resources from namespace '' @ [CHR 0x27] @ ''[cyan]'' @ namespace
                  @ ''[/cyan]'' @ [CHR 0x27] @ ''...''))
       (let delete_command = [''kubectl'', ''delete'', ''-n'', namespace, ''-f'', manifest_url] in
        io_bind (subprocess_run delete_command False True) (\<lambda>_.
        io_seq (logger_info (''Successfully deleted ArgoCD resources from namespace '' @ [CHR 0x27] @ namespace
                  @ [CHR 0x27] @ ''.''))
       (io_seq (console_print ''[green]ArgoCD resources have been deleted.[/green]'')
       (io_bind (Confirm_ask_f (''\<newline>Do you also want to delete the entire '' @ [CHR 0x27] @ ''[cyan]'' @ namespace
                  @ ''[/cyan]'' @ [CHR 0x27] @ '' namespace?'') None) (\<lambda>also.
        if also then
          io_seq (console_print_f (''Deleting namespace '' @ [CHR 0x27] @ namespace @ [CHR 0x27] @ ''...''))
         (let delete_ns_command = [''kubectl'', ''delete'', ''namespace'', namespace] in
          io_bind (subprocess_run delete_ns_command False True) (\<lambda>_.
          io_seq (logger_info (''Successfully deleted namespace '' @ [CHR 0x27] @ namespace @ [CHR 0x27] @ ''.''))
         (console_print_f (''[green]Namespace '' @ [CHR 0x27] @ namespace @ [CHR 0x27] @ '' has been deleted.[/green]''))))
        else io_return ()))))))
       (kubectl_handlers ''An error occurred during uninstallation. Stderr: ''
          ''[bold red]An error occurred during the uninstallation process.[/bold red]'')))))"

section \<open>Repositories and applications\<close>

subsection \<open>Decoded JSON\<close>

text \<open>
  The values \<^verbatim>\<open>json.loads\<close> returns. An object is a Python \<^verbatim>\<open>dict\<close>: its keys are distinct and
  keep the order of the text. The decoder itself is a parameter \<open>loads\<close> of the operations
  that call it: \<open>loads s = None\<close> stands for \<^verbatim>\<open>json.JSONDecodeError\<close>.
\<close>

datatype json =
    JNull
  | JBool bool
  | JInt int
  | JFloat real
  | JStr string
  | JArr "json list"
  | JObj "(string \<times> json) list"

definition exn_bind :: "exn + 'a \<Rightarrow> ('a \<Rightarrow> exn + 'b) \<Rightarrow> exn + 'b" where
  "exn_bind r f = (case r of Inl e \<Rightarrow> Inl e | Inr x \<Rightarrow> f x)"

definition io_lift :: "exn + 'a \<Rightarrow> 'a io" where
  "io_lift r = (\<lambda>w. (r, w))"

text \<open>\<^verbatim>\<open>x.get(k, d)\<close>: only a \<^verbatim>\<open>dict\<close> has the method.\<close>

fun py_get :: "json \<Rightarrow> string \<Rightarrow> json \<Rightarrow> exn + json" where
  "py_get (JObj kvs) k d = Inr (case map_of kvs k of None \<Rightarrow> d | Some v \<Rightarrow> v)"
| "py_get _ k d = Inl AttributeError"

text \<open>\<^verbatim>\<open>not x\<close> is \<open>\<not> py_truthy x\<close>.\<close>

fun py_truthy :: "json \<Rightarrow> bool" where
  "py_truthy JNull = False"
| "py_truthy (JBool b) = b"
| "py_truthy (JInt i) = (i \<noteq> 0)"
| "py_truthy (JFloat r) = (r \<noteq> 0)"
| "py_truthy (JStr s) = (s \<noteq> [])"
| "py_truthy (JArr xs) = (xs \<noteq> [])"
| "py_truthy (JObj kvs) = (kvs \<noteq> [])"

text \<open>\<^verbatim>\<open>for x in v\<close>: a list gives its elements, a \<^verbatim>\<open>dict\<close> its keys, a string its characters.\<close>

fun py_iter :: "json \<Rightarrow> exn + json list" where
  "py_iter (JArr xs) = Inr xs"
| "py_iter (JObj kvs) = Inr (map (\<lambda>kv. JStr (fst kv)) kvs)"
| "py_iter (JStr s) = Inr (map (\<lambda>c. JStr [c]) s)"
| "py_iter _ = Inl TypeError"

text \<open>\<^verbatim>\<open>Table.add_row\<close> of the \<^verbatim>\<open>rich\<close> library: a cell is a string, or \<^verbatim>\<open>None\<close> for an empty
  cell; anything else is not renderable.\<close>

fun table_cell :: "json \<Rightarrow> exn + string" where
  "table_cell (JStr s) = Inr s"
| "table_cell JNull = Inr []"
| "table_cell _ = Inl NotRenderableError"

fun add_row :: "json list \<Rightarrow> exn + string list" where
  "add_row [] = Inr []"
| "add_row (c # cs) = exn_bind (table_cell c) (\<lambda>x. exn_bind (add_row cs) (\<lambda>xs. Inr (x # xs)))"

fun for_rows :: "(json \<Rightarrow> exn + string list) \<Rightarrow> json list \<Rightarrow> exn + string list list" where
  "for_rows row [] = Inr []"
| "for_rows row (x # xs) = exn_bind (row x) (\<lambda>r. exn_bind (for_rows row xs) (\<lambda>rs. Inr (r # rs)))"

definition json_loads :: "(string \<Rightarrow> json option) \<Rightarrow> string option \<Rightarrow> json io" where
  "json_loads loads text =
     (case text of
        None \<Rightarrow> io_raise TypeError
      | Some s \<Rightarrow> (case loads s of None \<Rightarrow> io_raise JSONDecodeError | Some v \<Rightarrow> io_return v))"

subsection \<open>Listing\<close>

text \<open>The row of one repository (lines 214 to 220).\<close>

definition repo_row :: "json \<Rightarrow> exn + string list" where
  "repo_row repo =
     exn_bind (py_get repo ''repo'' (JStr [])) (\<lambda>c1.
     exn_bind (py_get repo ''name'' (JStr [])) (\<lambda>c2.
     exn_bind (py_get repo ''status'' (JStr [])) (\<lambda>c3.
     exn_bind (py_get repo ''connectionState'' (JObj [])) (\<lambda>connection_state.
     exn_bind (py_get connection_state ''status'' (JStr [])) (\<lambda>c4.
     exn_bind (py_get repo ''project'' (JStr [])) (\<lambda>c5.
     add_row [c1, c2, c3, c4, c5]))))))"

text \<open>The row of one application (lines 350 to 362).\<close>

definition app_row :: "json \<Rightarrow> exn + string list" where
  "app_row app =
     exn_bind (py_get app ''status'' (JObj [])) (\<lambda>status.
     exn_bind (py_get app ''spec'' (JObj [])) (\<lambda>spec.
     exn_bind (py_get spec ''destination'' (JObj [])) (\<lambda>destination.
     exn_bind (py_get app ''metadata'' (JObj [])) (\<lambda>metadata.
     exn_bind (py_get metadata ''name'' (JStr [])) (\<lambda>c1.
     exn_bind (py_get spec ''project'' (JStr [])) (\<lambda>c2.
     exn_bind (py_get destination ''server'' (JStr [])) (\<lambda>c3.
     exn_bind (py_get destination ''namespace'' (JStr [])) (\<lambda>c4.
     exn_bind (py_get status ''sync'' (JObj [])) (\<lambda>sync.
     exn_bind (py_get sync ''status'' (JStr [])) (\<lambda>c5.
     exn_bind (py_get status ''health'' (JObj [])) (\<lambda>health.
     exn_bind (py_get health ''status'' (JStr [])) (\<lambda>c6.
     add_row [c1, c2, c3, c4, c5, c6]))))))))))))"

text \<open>The \<^verbatim>\<open>except\<close> clause for \<^verbatim>\<open>CalledProcessError\<close> of the \<^verbatim>\<open>argocd\<close> operations, up to its
  two messages.\<close>

definition failed_handler :: "string \<Rightarrow> string \<Rightarrow> exn \<Rightarrow> unit io option" where
  "failed_handler log_text shown_text e = (case e of
      CalledProcessError rc out err \<Rightarrow> Some
        (io_seq (logger_error (log_text @ fmt_opt err))
        (io_seq (console_print shown_text)
        (console_print_f (''[dim]'' @ fmt_opt err @ ''[/dim]''))))
    | _ \<Rightarrow> None)"

definition parse_handler :: "unit io" where
  "parse_handler =
     io_seq (logger_error ''Failed to parse JSON from argocd CLI output.'')
       (console_print ''[red]Error: Could not parse the data received from the ArgoCD CLI.[/red]'')"

definition list_repositories :: "(string \<Rightarrow> json option) \<Rightarrow> unit io" where
  "list_repositories loads =
     io_seq (console_print ''\<newline>[bold]Fetching Repositories...[/bold]'')
    (let command = [''argocd'', ''repo'', ''list'', ''-o'', ''json''] in
     try_except
       (io_bind (subprocess_run command True True) (\<lambda>result.
        io_bind (json_loads loads (stdout result)) (\<lambda>repos.
        if \<not> py_truthy repos then console_print ''No repositories found.''
        else
          io_bind (io_lift (exn_bind (py_iter repos) (for_rows repo_row))) (\<lambda>rows.
          console_print_table (Some ''ArgoCD Repositories'')
            [''REPO'', ''NAME'', ''STATUS'', ''CONNECTION'', ''PROJECT''] rows (concat rows)))))
       (\<lambda>e. case e of
          JSONDecodeError \<Rightarrow> Some parse_handler
        | _ \<Rightarrow> failed_handler ''Failed to list repositories. Stderr: ''
                 ''[red]Error: Failed to list repositories.[/red]'' e))"

definition list_applications :: "(string \<Rightarrow> json option) \<Rightarrow> unit io" where
  "list_applications loads =
     io_seq (console_print ''\<newline>[bold]Fetching Applications...[/bold]'')
    (let command = [''argocd'', ''app'', ''list'', ''-o'', ''json''] in
     try_except
       (io_bind (subprocess_run command True True) (\<lambda>result.
        io_bind (json_loads loads (stdout result)) (\<lambda>apps.
        if \<not> py_truthy apps then console_print ''No applications found.''
        else
          io_bind (io_lift (exn_bind (py_iter apps) (for_rows app_row))) (\<lambda>rows.
          console_print_table (Some ''ArgoCD Applications'')
            [''NAME'', ''PROJECT'', ''SERVER'', ''NAMESPACE'', ''SYNC STATUS'', ''HEALTH STATUS''] rows
            (concat rows)))))
       (\<lambda>e. case e of
          JSONDecodeError \<Rightarrow> Some parse_handler
        | _ \<Rightarrow> failed_handler ''Failed to list applications. Stderr: ''
                 ''[red]Error: Failed to list applications.[/red]'' e))"

subsection \<open>Adding, creating and deleting\<close>

definition add_credential_template :: "unit io" where
  "add_credential_template =
     io_seq (console_print ''\<newline>[bold]Add Repository Credential Template[/bold]'')
    (io_seq (console_print (''This will store credentials for a URL prefix (e.g., '' @ [CHR 0x27]
               @ ''https://github.com/my-org'' @ [CHR 0x27] @ '').''))
    (io_bind (Prompt_ask ''Enter Repository URL Prefix'' None None) (\<lambda>url_prefix.
     io_bind (Prompt_ask ''Enter repository username'' None None) (\<lambda>username.
     io_bind (Prompt_ask ''Enter repository password or PAT'' None None) (\<lambda>password.
     let command = [''argocd'', ''repocreds'', ''add'', url_prefix,
                    ''--username'', username,
                    ''--password'', password] in
     try_except
       (io_seq (console_print_f (''Adding credentials for [cyan]'' @ url_prefix @ ''[/cyan]...''))
       (io_bind (subprocess_run command True True) (\<lambda>result.
        io_seq (logger_info (''Successfully added credential template: '' @ fmt_opt (stdout result)))
       (console_print ''[green]Successfully added credential template.[/green]''))))
       (failed_handler ''Failed to add credential template. Stderr: ''
          ''[red]Error: Failed to add credential template.[/red]''))))))"

definition add_repository :: "unit io" where
  "add_repository =
     io_seq (console_print ''\<newline>[bold]Add a new Repository to ArgoCD[/bold]'')
    (io_seq (console_print ''Note: If this is a private repository, ensure you have added a matching credential template first.'')
    (io_bind (Prompt_ask ''Enter the full Repository URL (e.g., https://github.com/my-org/my-repo.git)'' None None)
       (\<lambda>repo_url.
     let command = [''argocd'', ''repo'', ''add'', repo_url] in
     try_except
       (io_seq (console_print ''Registering repository...'')
       (io_bind (subprocess_run command True True) (\<lambda>result.
        io_seq (logger_info (''Successfully added repository: '' @ fmt_opt (stdout result)))
       (console_print_f (''[green]Successfully registered repository '' @ repo_url @ ''.[/green]'')))))
       (failed_handler ''Failed to add repository. Stderr: ''
          ''[red]Error: Failed to register repository. Ensure the URL is correct and credentials have been added.[/red]''))))"

definition create_application :: "unit io" where
  "create_application =
     io_seq (console_print ''\<newline>[bold]Create a new ArgoCD Application[/bold]'')
    (io_bind (Prompt_ask ''Application Name'' None None) (\<lambda>app_name.
     io_bind (Prompt_ask ''Repository URL'' None None) (\<lambda>repo_url.
     io_bind (Prompt_ask ''Target branch/revision'' (Some ''HEAD'') None) (\<lambda>revision.
     io_bind (Prompt_ask ''Path to manifests in repository'' None None) (\<lambda>path.
     io_bind (Prompt_ask ''Destination cluster URL'' (Some ''https://kubernetes.default.svc'') None) (\<lambda>dest_server.
     io_bind (Prompt_ask ''Destination namespace'' None None) (\<lambda>dest_namespace.
     io_bind (Prompt_ask ''ArgoCD Project'' (Some ''default'') None) (\<lambda>project.
     let command0 = [''argocd'', ''app'', ''create'', app_name,
                     ''--repo'', repo_url,
                     ''--revision'', revision,
                     ''--path'', path,
                     ''--dest-server'', dest_server,
                     ''--dest-namespace'', dest_namespace,
                     ''--project'', project] in
     io_bind (Prompt_ask ''Enable automated sync?'' (Some ''n'') (Some [''y'', ''n''])) (\<lambda>enable_auto_sync.
     io_bind
       (if enable_auto_sync = ''y''
        then
          io_bind (Prompt_ask ''Enable auto-pruning?'' (Some ''n'') (Some [''y'', ''n''])) (\<lambda>enable_prune.
          io_bind (Prompt_ask ''Enable self-healing?'' (Some ''n'') (Some [''y'', ''n''])) (\<lambda>enable_self_heal.
          io_return (command0 @ [''--sync-policy'', ''automated'']
            @ (if enable_prune = ''y'' then [''--auto-prune''] else [])
            @ (if enable_self_heal = ''y'' then [''--self-heal''] else []))))
        else io_return command0) (\<lambda>command.
     try_except
       (io_seq (console_print_f (''Creating application [cyan]'' @ app_name @ ''[/cyan]...''))
       (io_bind (subprocess_run command True True) (\<lambda>result.
        io_seq (logger_info (''Successfully created application: '' @ fmt_opt (stdout result)))
       (console_print_f (''[green]Successfully created application '' @ [CHR 0x27] @ app_name @ [CHR 0x27]
          @ ''.[/green]'')))))
       (failed_handler ''Failed to create application. Stderr: ''
          ''[red]Error: Failed to create application.[/red]'')))))))))))"

definition delete_application :: "unit io" where
  "delete_application =
     io_seq (console_print ''\<newline>[bold]Delete an ArgoCD Application[/bold]'')
    (io_bind (Prompt_ask ''Enter the name of the application to delete'' None None) (\<lambda>app_name.
     if app_name = [] then console_print ''[yellow]No application name entered. Aborting.[/yellow]''
     else
     io_bind (Confirm_ask_f (''[bold red]Are you sure you want to delete the application '' @ [CHR 0x27] @ app_name
                @ [CHR 0x27] @ ''?[/bold red]'') None) (\<lambda>confirmed.
     if \<not> confirmed then console_print ''Deletion cancelled.''
     else
     let command = [''argocd'', ''app'', ''delete'', app_name, ''--yes''] in
     try_except
       (io_seq (console_print_f (''Deleting application [cyan]'' @ app_name @ ''[/cyan]...''))
       (io_bind (subprocess_run command True True) (\<lambda>result.
        io_seq (logger_info (''Successfully deleted application: '' @ fmt_opt (stdout result)))
       (console_print_f (''[green]Successfully deleted application '' @ [CHR 0x27] @ app_name @ [CHR 0x27]
          @ ''.[/green]'')))))
       (failed_handler ''Failed to delete application. Stderr: ''
          ''[red]Error: Failed to delete application. It may not exist.[/red]''))))"

section \<open>What every operation leaves alone\<close>

text \<open>
  No operation changes the environment or the tools, none gives back input it has read,
  and the trace only grows. The two loops of \<^verbatim>\<open>main\<close> end because of this: every turn
  reads at least one line.
\<close>

lemmas io_defs = io_bind_def io_seq_def io_return_def io_raise_def try_except_def console_print_def
  logger_error_def logger_info_def emit_def

lemma ran_commands_append [simp]: "ran_commands (xs @ ys) = ran_commands xs @ ran_commands ys"
  by (induction xs rule: ran_commands.induct) auto

lemma ask_loop_len:
  "ask_loop l d p xs = (r, rest, evs) \<Longrightarrow> ran_commands evs = [] \<and> length rest \<le> length xs"
  by (induction l d p xs arbitrary: r rest evs rule: ask_loop.induct)
     (auto split: option.splits prod.splits if_splits)

definition frame :: "'a io \<Rightarrow> bool" where
  "frame m = (\<forall>w r w'. m w = (r, w') \<longrightarrow>
     tool w' = tool w \<and> env w' = env w \<and> markup w' = markup w
     \<and> length (stdin w') \<le> length (stdin w) \<and> prefix (trace w) (trace w'))"

lemma frame_return: "frame (io_return x)"
  and frame_raise: "frame (io_raise e)"
  and frame_lift: "frame (io_lift r)"
  and frame_getenv: "frame (os_getenv k)"
  and frame_emit: "frame (emit ev)"
  and frame_print: "frame (console_print s)"
  and frame_info: "frame (logger_info s)"
  and frame_error: "frame (logger_error s)"
  by (auto simp: frame_def io_defs io_lift_def os_getenv_def)

lemma frame_run: "frame (subprocess_run cmd cap chk)"
  by (auto simp: frame_def subprocess_run_def Let_def split: proc_result.splits if_splits)

lemma frame_ask: "frame (ask l d p sh)"
  by (auto simp: frame_def ask_def split: prod.splits sum.splits dest: ask_loop_len)

lemma frame_Prompt: "frame (Prompt_ask l d cs)"
  and frame_Confirm: "frame (Confirm_ask l b)"
  by (simp_all add: Prompt_ask_def Confirm_ask_def frame_ask)

lemma frame_markup_checked: "frame m \<Longrightarrow> frame (markup_checked texts m)"
  by (auto simp: frame_def markup_checked_def split: if_splits)

lemma frame_print_f: "frame (console_print_f s)"
  and frame_print_table: "frame (console_print_table title headers rows cells)"
  and frame_Confirm_f: "frame (Confirm_ask_f l b)"
  by (simp_all add: console_print_f_def console_print_table_def Confirm_ask_f_def
      frame_markup_checked frame_emit frame_Confirm)

lemma frame_bind: "frame m \<Longrightarrow> (\<And>x. frame (f x)) \<Longrightarrow> frame (io_bind m f)"
  unfolding frame_def io_bind_def
  by (fastforce split: prod.splits sum.splits intro: prefix_order.trans)

lemma frame_seq: "frame m \<Longrightarrow> frame n \<Longrightarrow> frame (io_seq m n)"
  unfolding io_seq_def by (rule frame_bind)

lemma frame_try: "frame m \<Longrightarrow> (\<And>e k. h e = Some k \<Longrightarrow> frame k) \<Longrightarrow> frame (try_except m h)"
  unfolding frame_def try_except_def
  by (fastforce split: prod.splits sum.splits option.splits intro: prefix_order.trans)

lemma frame_if: "frame a \<Longrightarrow> frame b \<Longrightarrow> frame (if c then a else b)"
  by simp

lemma frame_py_or: "frame m \<Longrightarrow> frame (py_or x m)"
  by (auto simp: py_or_def frame_return split: option.splits)

lemma frame_json_loads: "frame (json_loads loads t)"
  by (auto simp: json_loads_def frame_return frame_raise split: option.splits)

lemma frame_kubectl_handlers: "kubectl_handlers a b e = Some k \<Longrightarrow> frame k"
  by (auto simp: kubectl_handlers_def split: exn.splits intro!: frame_seq frame_print frame_print_f frame_error)

lemma frame_failed_handler: "failed_handler a b e = Some k \<Longrightarrow> frame k"
  by (auto simp: failed_handler_def split: exn.splits intro!: frame_seq frame_print frame_print_f frame_error)

lemmas frame_intros = frame_return frame_raise frame_lift frame_getenv frame_emit frame_print frame_info
  frame_error frame_run frame_Prompt frame_Confirm frame_bind frame_seq frame_if frame_py_or frame_json_loads
  frame_print_f frame_print_table frame_Confirm_f

lemma frame_login_to_argocd: "frame login_to_argocd"
  unfolding login_to_argocd_def Let_def
  by (intro frame_intros frame_try) (auto split: exn.splits intro!: frame_intros)

lemma frame_prompt_and_login: "frame prompt_and_login"
  unfolding prompt_and_login_def Let_def
  by (intro frame_intros frame_try) (auto split: exn.splits intro!: frame_intros)

lemma frame_install_argocd: "frame install_argocd"
  unfolding install_argocd_def Let_def
  by (intro frame_intros frame_try) (auto split: option.splits intro!: frame_intros dest: frame_kubectl_handlers)

lemma frame_check_installation_status: "frame check_installation_status"
  unfolding check_installation_status_def Let_def
  by (intro frame_intros frame_try) (auto intro!: frame_intros dest: frame_kubectl_handlers)

lemma frame_delete_argocd_installation: "frame delete_argocd_installation"
  unfolding delete_argocd_installation_def Let_def
  by (intro frame_intros frame_try) (auto intro!: frame_intros dest: frame_kubectl_handlers)

lemma frame_list_repositories: "frame (list_repositories loads)"
  unfolding list_repositories_def Let_def parse_handler_def
  by (intro frame_intros frame_try) (auto split: exn.splits intro!: frame_intros dest: frame_failed_handler)

lemma frame_list_applications: "frame (list_applications loads)"
  unfolding list_applications_def Let_def parse_handler_def
  by (intro frame_intros frame_try) (auto split: exn.splits intro!: frame_intros dest: frame_failed_handler)

lemma frame_add_credential_template: "frame add_credential_template"
  unfolding add_credential_template_def Let_def
  by (intro frame_intros frame_try) (auto intro!: frame_intros dest: frame_failed_handler)

lemma frame_add_repository: "frame add_repository"
  unfolding add_repository_def Let_def
  by (intro frame_intros frame_try) (auto intro!: frame_intros dest: frame_failed_handler)

lemma frame_create_application: "frame create_application"
  unfolding create_application_def Let_def
  by (intro frame_intros frame_try) (auto intro!: frame_intros dest: frame_failed_handler)

lemma frame_delete_application: "frame delete_application"
  unfolding delete_application_def Let_def
  by (intro frame_intros frame_try) (auto intro!: frame_intros dest: frame_failed_handler)

lemma frame_batch_item: "frame (batch_item cfg n acc)"
  unfolding batch_item_def Let_def
  by (cases acc) (auto split: exn.splits option.splits intro!: frame_intros frame_try)

lemma frame_batch_loop: "frame (batch_loop cfg names acc)"
  by (induction names arbitrary: acc) (auto intro!: frame_intros frame_batch_item)

lemma frame_create_application_batch: "frame create_application_batch"
  unfolding create_application_batch_def Let_def
  by (intro frame_intros frame_try frame_batch_loop) (auto intro!: frame_intros)


section \<open>The menu\<close>

lemma ask_loop_consumes:
  "ask_loop l d p xs = (Inr v, rest, evs) \<Longrightarrow> length rest < length xs"
  by (induction l d p xs arbitrary: rest evs rule: ask_loop.induct)
     (fastforce split: option.splits prod.splits if_splits)+

lemma ask_consumes: "ask l d p sh w = (Inr v, w') \<Longrightarrow> length (stdin w') < length (stdin w)"
  by (auto simp: ask_def split: prod.splits sum.splits dest: ask_loop_consumes)

lemma frameD_stdin: "frame m \<Longrightarrow> m w = (r, w') \<Longrightarrow> length (stdin w') \<le> length (stdin w)"
  by (simp add: frame_def)

datatype handler =
    Fn_add_credential_template
  | Fn_add_repository
  | Fn_create_application
  | Fn_create_application_batch
  | Fn_delete_application
  | Fn_list_applications
  | Fn_list_repositories
  | Fn_check_installation_status
  | Fn_install_argocd
  | Fn_delete_argocd_installation

datatype menu_value = Callable handler | Text string

fun call :: "(string \<Rightarrow> json option) \<Rightarrow> handler \<Rightarrow> unit io" where
  "call loads Fn_add_credential_template = add_credential_template"
| "call loads Fn_add_repository = add_repository"
| "call loads Fn_create_application = create_application"
| "call loads Fn_create_application_batch = create_application_batch"
| "call loads Fn_delete_application = delete_application"
| "call loads Fn_list_applications = list_applications loads"
| "call loads Fn_list_repositories = list_repositories loads"
| "call loads Fn_check_installation_status = check_installation_status"
| "call loads Fn_install_argocd = install_argocd"
| "call loads Fn_delete_argocd_installation = delete_argocd_installation"

definition management_options :: "(string \<times> menu_value) list" where
  "management_options =
     [(''Add Credential Template'', Callable Fn_add_credential_template),
      (''Add Repository'', Callable Fn_add_repository),
      (''Create Application'', Callable Fn_create_application),
      (''Create Application Batch'', Callable Fn_create_application_batch),
      (''Delete Application'', Callable Fn_delete_application),
      (''List Applications'', Callable Fn_list_applications),
      (''List Repositories'', Callable Fn_list_repositories)]"

definition setup_options :: "(string \<times> menu_value) list" where
  "setup_options =
     [(''Check ArgoCD Installation Status'', Callable Fn_check_installation_status),
      (''Install ArgoCD'', Callable Fn_install_argocd),
      (''Uninstall ArgoCD'', Callable Fn_delete_argocd_installation)]"

definition dict_update :: "('k \<times> 'v) list \<Rightarrow> ('k \<times> 'v) list \<Rightarrow> ('k \<times> 'v) list" where
  "dict_update d other = fold (\<lambda>kv. AList.update (fst kv) (snd kv)) other d"

definition py_index :: "'a list \<Rightarrow> int \<Rightarrow> exn + 'a" where
  "py_index xs i =
     (let j = (if i < 0 then i + int (length xs) else i)
      in if 0 \<le> j \<and> j < int (length xs) then Inr (xs ! nat j) else Inl IndexError)"

definition dict_getitem :: "('k \<times> 'v) list \<Rightarrow> 'k \<Rightarrow> exn + 'v" where
  "dict_getitem d k = (case map_of d k of None \<Rightarrow> Inl KeyError | Some v \<Rightarrow> Inr v)"

fun io_for :: "'a list \<Rightarrow> ('a \<Rightarrow> unit io) \<Rightarrow> unit io" where
  "io_for [] body = io_return ()"
| "io_for (x # xs) body = io_seq (body x) (io_for xs body)"

definition current_menu_text :: "bool \<Rightarrow> (string \<times> menu_value) list" where
  "current_menu_text logged_in =
     (if logged_in then dict_update setup_options management_options
      else AList.update ''Login to ArgoCD'' (Text ''login_retry'') setup_options)"

definition sorted_menu_items :: "bool \<Rightarrow> string list" where
  "sorted_menu_items logged_in = sort (map fst (current_menu_text logged_in))"

definition exit_option_number :: "bool \<Rightarrow> nat" where
  "exit_option_number logged_in = length (sorted_menu_items logged_in) + 1"

definition valid_choices :: "bool \<Rightarrow> string list" where
  "valid_choices logged_in = map py_str [1..<exit_option_number logged_in + 1]"

definition menu_select :: "bool \<Rightarrow> string \<Rightarrow> exn + menu_value" where
  "menu_select logged_in choice =
     exn_bind (py_int choice) (\<lambda>n.
     exn_bind (py_index (sorted_menu_items logged_in) (int n - 1)) (\<lambda>selected_item_text.
     dict_getitem (current_menu_text logged_in) selected_item_text))"

function login_retry_loop :: "bool \<Rightarrow> world \<Rightarrow> (exn + bool) \<times> world" where
  "login_retry_loop logged_in w =
     (case prompt_and_login w of
        (Inl e, w1) \<Rightarrow> (Inl e, w1)
      | (Inr success, w1) \<Rightarrow>
          if success then (Inr True, w1)
          else (case Confirm_ask ''[yellow]Login failed. Do you want to try again with different credentials?[/yellow]''
                       None w1 of
                  (Inl e, w2) \<Rightarrow> (Inl e, w2)
                | (Inr again, w2) \<Rightarrow>
                    if \<not> again then (Inr logged_in, w2) else login_retry_loop logged_in w2))"
  by pat_completeness auto
termination
proof (relation "measure (\<lambda>(logged_in, w). length (stdin w))")
  show "wf (measure (\<lambda>(logged_in, w). length (stdin w)))" by simp
next
  fix logged_in :: bool and w x w1 and success :: bool and y w2 again
  assume "(x, w1) = prompt_and_login w" "(y, w2) = Confirm_ask ''[yellow]Login failed. Do you want to try again with different credentials?[/yellow]'' None w1" "y = Inr again"
  then have "length (stdin w1) \<le> length (stdin w)" "length (stdin w2) < length (stdin w1)"
    using frameD_stdin[OF frame_prompt_and_login, of w x w1]
      ask_consumes[of "''[yellow]Login failed. Do you want to try again with different credentials?[/yellow]''" None confirm_process _ w1 again w2]
    by (simp_all add: Confirm_ask_def)
  then show "((logged_in, w2), (logged_in, w)) \<in> measure (\<lambda>(logged_in, w). length (stdin w))"
    by simp
qed

text \<open>The menu is printed and a choice is read (lines 512 to 534).\<close>

definition menu_choice :: "bool \<Rightarrow> string io" where
  "menu_choice logged_in =
     io_seq (console_print ''\<newline>[bold]Main Menu[/bold]'')
    (io_seq (io_for (zip [1..<length (sorted_menu_items logged_in) + 1] (sorted_menu_items logged_in))
               (\<lambda>(i, item_text). console_print (''[bold]'' @ py_str i @ '':[/bold] '' @ item_text)))
    (io_seq (console_print (''[bold]'' @ py_str (exit_option_number logged_in) @ '':[/bold] Exit''))
    (Prompt_ask ''Choose an action'' (Some (py_str (exit_option_number logged_in)))
       (Some (valid_choices logged_in)))))"

text \<open>One turn of the menu loop (lines 512 to 554): \<open>None\<close> is \<^verbatim>\<open>break\<close>, \<open>Some b\<close> goes on
  with \<^verbatim>\<open>logged_in = b\<close>.\<close>

definition menu_iteration :: "(string \<Rightarrow> json option) \<Rightarrow> bool \<Rightarrow> bool option io" where
  "menu_iteration loads logged_in =
     io_bind (menu_choice logged_in) (\<lambda>choice.
     if choice = py_str (exit_option_number logged_in)
     then io_seq (console_print ''\<newline>Exiting.'') (io_return None)
     else
       io_bind (io_lift (menu_select logged_in choice)) (\<lambda>selected_action.
       if selected_action = Text ''login_retry''
       then io_bind (login_retry_loop logged_in) (\<lambda>logged_in'. io_return (Some logged_in'))
       else (case selected_action of
               Callable f \<Rightarrow> io_seq (call loads f) (io_return (Some logged_in))
             | Text _ \<Rightarrow> io_raise TypeError)))"

lemma frameD: "frame m \<Longrightarrow> m w = (r, w') \<Longrightarrow>
    tool w' = tool w \<and> env w' = env w \<and> markup w' = markup w
    \<and> length (stdin w') \<le> length (stdin w) \<and> prefix (trace w) (trace w')"
  by (simp add: frame_def)

lemma login_retry_loop_frame:
  "login_retry_loop li w = (r, w') \<Longrightarrow>
     tool w' = tool w \<and> env w' = env w \<and> markup w' = markup w
     \<and> length (stdin w') \<le> length (stdin w) \<and> prefix (trace w) (trace w')"
proof (induction li w arbitrary: r w' rule: login_retry_loop.induct)
  case (1 li w)
  obtain x w1 where p: "prompt_and_login w = (x, w1)" by force
  note f1 = frameD[OF frame_prompt_and_login p]
  show ?case
  proof (cases x)
    case (Inl e)
    with "1.prems" p f1 show ?thesis
      by (subst (asm) login_retry_loop.simps) simp
  next
    case (Inr success)
    show ?thesis
    proof (cases success)
      case True
      with "1.prems" p f1 Inr show ?thesis
        by (subst (asm) login_retry_loop.simps) simp
    next
      case False
      obtain y w2 where c: "Confirm_ask ''[yellow]Login failed. Do you want to try again with different credentials?[/yellow]''
                       None w1 = (y, w2)" by force
      note f2 = frameD[OF frame_Confirm c]
      show ?thesis
      proof (cases y)
        case (Inl e)
        with "1.prems" p c Inr False f1 f2 show ?thesis
          by (subst (asm) login_retry_loop.simps) (auto intro: prefix_order.trans)
      next
        case again: (Inr again)
        show ?thesis
        proof (cases again)
          case True
          with "1.prems" p c Inr False again have "login_retry_loop li w2 = (r, w')"
            by (subst (asm) login_retry_loop.simps) simp
          from "1.IH"[OF p[symmetric] Inr False c[symmetric] again _ this] True
          have "tool w' = tool w2 \<and> env w' = env w2 \<and> markup w' = markup w2
            \<and> length (stdin w') \<le> length (stdin w2) \<and> prefix (trace w2) (trace w')"
            by simp
          with f1 f2 show ?thesis by (auto intro: prefix_order.trans)
        next
          case False
          with "1.prems" p c Inr \<open>\<not> success\<close> again f1 f2 show ?thesis
            by (subst (asm) login_retry_loop.simps) (auto intro: prefix_order.trans)
        qed
      qed
    qed
  qed
qed

lemma frame_login_retry_loop: "frame (login_retry_loop li)"
  unfolding frame_def using login_retry_loop_frame by blast

lemma frame_call: "frame (call loads f)"
  by (cases f) (simp_all add: frame_add_credential_template frame_add_repository frame_create_application
      frame_create_application_batch frame_delete_application frame_list_applications frame_list_repositories
      frame_check_installation_status frame_install_argocd frame_delete_argocd_installation)

lemma frame_io_for: "(\<And>x. frame (body x)) \<Longrightarrow> frame (io_for xs body)"
  by (induction xs) (auto intro!: frame_intros)

definition consumes :: "'a io \<Rightarrow> bool" where
  "consumes m = (\<forall>w x w'. m w = (Inr x, w') \<longrightarrow> length (stdin w') < length (stdin w))"

lemma consumes_Prompt: "consumes (Prompt_ask l d cs)"
  by (auto simp: consumes_def Prompt_ask_def dest: ask_consumes)

lemma consumes_bind1: "consumes m \<Longrightarrow> (\<And>x. frame (f x)) \<Longrightarrow> consumes (io_bind m f)"
  unfolding consumes_def frame_def io_bind_def
  by (fastforce split: prod.splits sum.splits)

lemma consumes_seq2: "frame m \<Longrightarrow> consumes n \<Longrightarrow> consumes (io_seq m n)"
  unfolding consumes_def frame_def io_bind_def io_seq_def
  by (fastforce split: prod.splits sum.splits)

lemma frame_case_prod: "(\<And>a b. frame (f a b)) \<Longrightarrow> frame (case x of (a, b) \<Rightarrow> f a b)"
  by (cases x) simp

lemma consumes_menu_choice: "consumes (menu_choice li)"
  unfolding menu_choice_def
  by (intro consumes_seq2 consumes_Prompt frame_io_for frame_case_prod frame_print)

lemma frame_dispatch:
  "frame (if selected_action = Text ''login_retry''
       then io_bind (login_retry_loop logged_in) (\<lambda>logged_in'. io_return (Some logged_in'))
       else (case selected_action of
               Callable f \<Rightarrow> io_seq (call loads f) (io_return (Some logged_in))
             | Text _ \<Rightarrow> io_raise TypeError))"
  by (cases selected_action)
     (simp_all add: frame_bind frame_seq frame_call frame_login_retry_loop frame_return frame_raise)

lemma consumes_menu_iteration: "consumes (menu_iteration loads li)"
  unfolding menu_iteration_def
  by (intro consumes_bind1 consumes_menu_choice frame_if frame_seq frame_print frame_return
        frame_bind frame_lift frame_dispatch)

function main_loop :: "(string \<Rightarrow> json option) \<Rightarrow> bool \<Rightarrow> world \<Rightarrow> (exn + unit) \<times> world" where
  "main_loop loads logged_in w =
     (case menu_iteration loads logged_in w of
        (Inl e, w') \<Rightarrow> (Inl e, w')
      | (Inr None, w') \<Rightarrow> (Inr (), w')
      | (Inr (Some logged_in'), w') \<Rightarrow> main_loop loads logged_in' w')"
  by pat_completeness auto
termination
proof (relation "measure (\<lambda>(loads, logged_in, w). length (stdin w))")
  show "wf (measure (\<lambda>(loads, logged_in, w). length (stdin w)))" by simp
next
  fix loads :: "string \<Rightarrow> json option" and logged_in :: bool and w x w' y and logged_in' :: bool
  assume "(x, w') = menu_iteration loads logged_in w" "x = Inr y" "y = Some logged_in'"
  then have "menu_iteration loads logged_in w = (Inr (Some logged_in'), w')" by simp
  with consumes_menu_iteration[of loads logged_in] have "length (stdin w') < length (stdin w)"
    unfolding consumes_def by blast
  then show "((loads, logged_in', w'), (loads, logged_in, w)) \<in> measure (\<lambda>(loads, logged_in, w). length (stdin w))"
    by simp
qed

definition main :: "(string \<Rightarrow> json option) \<Rightarrow> (exn \<Rightarrow> string) \<Rightarrow> unit io" where
  "main loads str_exn =
     io_seq (console_print ''[bold cyan]Welcome to the ArgoCD Interactive CLI[/bold cyan]'')
    (io_bind login_to_argocd (\<lambda>logged_in.
     try_except (main_loop loads logged_in)
       (\<lambda>e. case e of
          KeyboardInterrupt \<Rightarrow> Some
            (io_seq (console_print ''\<newline>\<newline>[bold yellow]Interrupted by user. Exiting gracefully.[/bold yellow]'')
            (io_raise (SystemExit 0)))
        | SystemExit n \<Rightarrow> None
        | _ \<Rightarrow> Some
            (io_seq (logger_error (''An unexpected error occurred in the main loop: '' @ str_exn e))
            (io_seq (console_print_f (''\<newline>[bold red]An unexpected error occurred: '' @ str_exn e @ ''[/bold red]''))
            (io_raise (SystemExit 1)))))))"

section \<open>Reading a trace\<close>

text \<open>The command lines run, with what the tool answered, and the answers given to the prompt
  with a given label, both in the order of the trace.\<close>

fun runs :: "event list \<Rightarrow> (string list \<times> proc_result) list" where
  "runs [] = []"
| "runs (Ran cmd r # evs) = (cmd, r) # runs evs"
| "runs (e # evs) = runs evs"

fun answers :: "string \<Rightarrow> event list \<Rightarrow> string list" where
  "answers l [] = []"
| "answers l (Answered l' v # evs) = (if l' = l then v # answers l evs else answers l evs)"
| "answers l (e # evs) = answers l evs"

section \<open>Concrete runs\<close>

text \<open>Worlds and tools used to run the model on concrete inputs.\<close>

definition accepts_all :: "string \<Rightarrow> bool" where
  "accepts_all s = True"

text \<open>A console that rejects the closing tag \<^verbatim>\<open>[/x]\<close>, which closes nothing in the texts of
  the program.\<close>

definition rejects_close_x :: "string \<Rightarrow> bool" where
  "rejects_close_x s = (\<not> py_in ''[/x]'' s)"

definition tool_always_ok :: "string list list \<Rightarrow> string list \<Rightarrow> proc_result" where
  "tool_always_ok hist cmd = Exited 0 [] []"

definition tool_fails_on :: "string \<Rightarrow> string list list \<Rightarrow> string list \<Rightarrow> proc_result" where
  "tool_fails_on arg hist cmd =
     (if arg \<in> set cmd then Exited 1 [] ''already exists\<newline>'' else Exited 0 [] [])"

definition demo_world :: "(string list list \<Rightarrow> string list \<Rightarrow> proc_result) \<Rightarrow> stdin_item list \<Rightarrow> world" where
  "demo_world t inp = \<lparr>env = Map.empty, tool = t, markup = accepts_all, stdin = inp, trace = []\<rparr>"

definition demo_config :: "string \<Rightarrow> batch_config" where
  "demo_config e = \<lparr>repo_url = ''https://example.org/repo.git'', revision = ''HEAD'', environment = e,
     dest_server = ''https://kubernetes.default.svc'', dest_namespace = ''apps'', project = ''default'',
     base_command = []\<rparr>"

text \<open>A tool that prints a given text and succeeds, and a decoder that knows three texts.\<close>

definition tool_prints :: "string \<Rightarrow> string list list \<Rightarrow> string list \<Rightarrow> proc_result" where
  "tool_prints out hist cmd = Exited 0 out []"

definition demo_loads :: "string \<Rightarrow> json option" where
  "demo_loads s =
     (if s = ''[]'' then Some (JArr [])
      else if s = ''[{}]'' then Some (JArr [JObj []])
      else if s = ''{}'' then Some (JObj [])
      else None)"

section \<open>Properties of the batch\<close>

lemma runs_append [simp]: "runs (xs @ ys) = runs xs @ runs ys"
  by (induction xs rule: runs.induct) auto

lemma answers_append [simp]: "answers l (xs @ ys) = answers l xs @ answers l ys"
  by (induction l xs rule: answers.induct) auto

lemma ran_commands_runs: "ran_commands evs = map fst (runs evs)"
  by (induction evs rule: runs.induct) auto

lemma runs_replicate_Prompted [simp]: "runs (replicate k (Prompted l)) = []"
  by (induction k) auto

lemma answers_replicate_Prompted [simp]: "answers l' (replicate k (Prompted l)) = []"
  by (induction k) auto

lemma ask_loop_replicate:
  "ask_loop l d p xs = (r, rest, evs) \<Longrightarrow> \<exists>k. evs = replicate k (Prompted l)"
proof (induction l d p xs arbitrary: r rest evs rule: ask_loop.induct)
  case (1 label dflt process)
  then show ?case by (auto intro: exI[of _ "Suc 0"])
next
  case (2 label dflt process rest)
  then show ?case by (auto intro: exI[of _ "Suc 0"])
next
  case (3 label dflt process s rest0)
  show ?case
  proof (cases "(if s = [] then dflt else None)")
    case (Some d)
    with 3 show ?thesis by (auto intro: exI[of _ "Suc 0"])
  next
    case None
    show ?thesis
    proof (cases "process s")
      case (Some v)
      with None 3 show ?thesis by (auto intro: exI[of _ "Suc 0"])
    next
      case np: None
      obtain r1 rest1 evs1 where rec: "ask_loop label dflt process rest0 = (r1, rest1, evs1)"
        by (cases "ask_loop label dflt process rest0") auto
      from "3.IH"[OF None np rec] obtain k where "evs1 = replicate k (Prompted label)" by blast
      with None np rec "3.prems" show ?thesis
        by (auto intro: exI[of _ "Suc k"])
    qed
  qed
qed

lemma ask_outcome:
  assumes "ask l d p sh w = (r, w')"
  shows "\<exists>k. w' = w\<lparr>stdin := stdin w', trace := trace w @ replicate k (Prompted l) @
            (case r of Inl e \<Rightarrow> [] | Inr v \<Rightarrow> [Answered l (sh v)])\<rparr>"
proof -
  obtain r0 rest evs where a: "ask_loop l d p (stdin w) = (r0, rest, evs)"
    by (cases "ask_loop l d p (stdin w)") auto
  from ask_loop_replicate[OF a] obtain k where "evs = replicate k (Prompted l)" by blast
  with assms a show ?thesis
    by (cases r0) (auto simp: ask_def intro!: exI[of _ k])
qed

lemma Confirm_ask_outcome:
  assumes "Confirm_ask l d w = (r, w')"
  shows "\<exists>evs. trace w' = trace w @ evs \<and> runs evs = [] \<and> tool w' = tool w \<and> markup w' = markup w
     \<and> answers l evs = (case r of Inl e \<Rightarrow> [] | Inr b \<Rightarrow> [if b then ''y'' else ''n''])"
proof -
  from ask_outcome[OF assms[unfolded Confirm_ask_def]] obtain k where
    w': "w' = w\<lparr>stdin := stdin w', trace := trace w @ replicate k (Prompted l) @
            (case r of Inl e \<Rightarrow> [] | Inr v \<Rightarrow> [Answered l (if v then ''y'' else ''n'')])\<rparr>" by blast
  show ?thesis
    apply (rule exI[of _ "replicate k (Prompted l) @
            (case r of Inl e \<Rightarrow> [] | Inr v \<Rightarrow> [Answered l (if v then ''y'' else ''n'')])"])
    apply (subst w', simp)
    apply (subst w', simp)
    apply (subst w', simp)
    apply (cases r; simp)
    done
qed

lemma batch_item_outcome:
  assumes "batch_item cfg n (s0, f0) w = (r, w')"
  shows "\<exists>evs. trace w' = trace w @ evs \<and> tool w' = tool w \<and> markup w' = markup w \<and>
     ((runs evs = [] \<and> answers ''An error occurred. Continue with the next application?'' evs = []
         \<and> r = Inl MarkupError)
      \<or> (runs evs = [(batch_command cfg n, NotFound)]
         \<and> answers ''An error occurred. Continue with the next application?'' evs = []
         \<and> r = Inl FileNotFoundError)
      \<or> (\<exists>out err. runs evs = [(batch_command cfg n, Exited 0 out err)]
         \<and> answers ''An error occurred. Continue with the next application?'' evs = []
         \<and> r = Inr (True, s0 @ [n], f0))
      \<or> (\<exists>rc out err. rc \<noteq> 0 \<and> runs evs = [(batch_command cfg n, Exited rc out err)] \<and>
           ((answers ''An error occurred. Continue with the next application?'' evs = [''n'']
               \<and> r = Inr (False, s0, f0 @ [(n, py_strip err)]))
            \<or> (answers ''An error occurred. Continue with the next application?'' evs = [''y'']
               \<and> r = Inr (True, s0, f0 @ [(n, py_strip err)]))
            \<or> (answers ''An error occurred. Continue with the next application?'' evs = []
               \<and> (\<exists>e. r = Inl e)))))"
proof -
  define creating where "creating = ''Creating application [cyan]'' @ n @ ''[/cyan] with path [dim]''
                   @ [CHR 0x27] @ (n @ ''/overlay/'' @ environment cfg) @ [CHR 0x27] @ ''[/dim]...''"
  define failed where "failed = ''[bold red]  -> Error creating '' @ [CHR 0x27] @ n
                               @ [CHR 0x27] @ ''.[/bold red]''"
  show ?thesis
  proof (cases "markup w creating")
    case False
    with assms have "r = Inl MarkupError" "w' = w"
      by (auto simp: batch_item_def io_defs console_print_f_def markup_checked_def Let_def creating_def)
    then show ?thesis by (intro exI[of _ "[]"]) simp
  next
    case ok: True
    show ?thesis
    proof (cases "tool w (ran_commands (trace w)) (batch_command cfg n)")
      case NotFound
      with assms ok have "r = Inl FileNotFoundError"
        "w' = w\<lparr>trace := trace w @ [Print creating, Ran (batch_command cfg n) NotFound]\<rparr>"
        by (auto simp: batch_item_def io_defs console_print_f_def markup_checked_def subprocess_run_def
            Let_def creating_def)
      then show ?thesis
        by (intro exI[of _ "[Print creating, Ran (batch_command cfg n) NotFound]"]) simp
    next
      case (Exited rc out err)
      show ?thesis
      proof (cases "rc = 0")
        case True
        with assms ok Exited have "r = Inr (True, s0 @ [n], f0)"
          "w' = w\<lparr>trace := trace w @ [Print creating, Ran (batch_command cfg n) (Exited 0 out err)]\<rparr>"
          by (auto simp: batch_item_def io_defs console_print_f_def markup_checked_def subprocess_run_def
              Let_def creating_def)
        then show ?thesis
          by (intro exI[of _ "[Print creating, Ran (batch_command cfg n) (Exited 0 out err)]"]) simp
      next
        case rc: False
        define w1 where "w1 = w\<lparr>trace := trace w @ [Print creating, Ran (batch_command cfg n) (Exited rc out err),
            LogError (''Failed to create application '' @ [CHR 0x27] @ n
                               @ [CHR 0x27] @ ''. Stderr: '' @ py_strip err)]\<rparr>"
        show ?thesis
        proof (cases "markup w failed")
          case False
          with assms ok Exited rc have "r = Inl MarkupError" "w' = w1"
            by (auto simp: batch_item_def io_defs console_print_f_def markup_checked_def subprocess_run_def
                Let_def creating_def failed_def w1_def)
          with rc show ?thesis
            by (intro exI[of _ "[Print creating, Ran (batch_command cfg n) (Exited rc out err),
            LogError (''Failed to create application '' @ [CHR 0x27] @ n
                               @ [CHR 0x27] @ ''. Stderr: '' @ py_strip err)]"]) (simp add: w1_def)
        next
          case True
          define w2 where "w2 = w1\<lparr>trace := trace w1 @ [Print failed]\<rparr>"
          obtain r3 w3 where c: "Confirm_ask ''An error occurred. Continue with the next application?'' None w2 = (r3, w3)"
            by force
          from Confirm_ask_outcome[OF c] obtain evs3 where e3: "trace w3 = trace w2 @ evs3" "runs evs3 = []"
            "tool w3 = tool w2" "markup w3 = markup w2"
            "answers ''An error occurred. Continue with the next application?'' evs3
               = (case r3 of Inl e \<Rightarrow> [] | Inr b \<Rightarrow> [if b then ''y'' else ''n''])" by blast
          have body: "batch_item cfg n (s0, f0) w =
            (case r3 of Inl e \<Rightarrow> (Inl e, w3)
             | Inr go \<Rightarrow> if \<not> go
                 then (Inr (False, s0, f0 @ [(n, py_strip err)]),
                       w3\<lparr>trace := trace w3 @ [Print ''[yellow]Batch creation aborted by user.[/yellow]'']\<rparr>)
                 else (Inr (True, s0, f0 @ [(n, py_strip err)]), w3))"
            using ok Exited rc True c
            by (cases r3) (auto simp: batch_item_def io_defs console_print_f_def markup_checked_def
                subprocess_run_def Let_def creating_def failed_def w1_def w2_def)
          show ?thesis
          proof (cases r3)
            case (Inl e)
            with body assms have "r = Inl e" "w' = w3" by auto
            with e3 Inl rc show ?thesis
              by (intro exI[of _ "[Print creating, Ran (batch_command cfg n) (Exited rc out err),
                   LogError (''Failed to create application '' @ [CHR 0x27] @ n
                               @ [CHR 0x27] @ ''. Stderr: '' @ py_strip err), Print failed] @ evs3"])
                 (simp add: w1_def w2_def)
          next
            case (Inr go)
            show ?thesis
            proof (cases go)
              case True
              with body assms Inr have "r = Inr (True, s0, f0 @ [(n, py_strip err)])" "w' = w3" by auto
              with e3 Inr True rc show ?thesis
                by (intro exI[of _ "[Print creating, Ran (batch_command cfg n) (Exited rc out err),
                   LogError (''Failed to create application '' @ [CHR 0x27] @ n
                               @ [CHR 0x27] @ ''. Stderr: '' @ py_strip err), Print failed] @ evs3"])
                   (simp add: w1_def w2_def)
            next
              case False
              with body assms Inr have "r = Inr (False, s0, f0 @ [(n, py_strip err)])"
                "w' = w3\<lparr>trace := trace w3 @ [Print ''[yellow]Batch creation aborted by user.[/yellow]'']\<rparr>"
                by auto
              with e3 Inr False rc show ?thesis
                by (intro exI[of _ "[Print creating, Ran (batch_command cfg n) (Exited rc out err),
                   LogError (''Failed to create application '' @ [CHR 0x27] @ n
                               @ [CHR 0x27] @ ''. Stderr: '' @ py_strip err), Print failed] @ evs3
                   @ [Print ''[yellow]Batch creation aborted by user.[/yellow]'']"])
                   (simp add: w1_def w2_def)
            qed
          qed
        qed
      qed
    qed
  qed
qed

lemma batch_loop_step:
  assumes "batch_loop cfg (n # rest) acc w = (r, w')"
  obtains e where "batch_item cfg n acc w = (Inl e, w')" "r = Inl e"
  | acc' where "batch_item cfg n acc w = (Inr (False, acc'), w')" "r = Inr acc'"
  | acc' w1 where "batch_item cfg n acc w = (Inr (True, acc'), w1)" "batch_loop cfg rest acc' w1 = (r, w')"
proof -
  obtain r1 w1 where item: "batch_item cfg n acc w = (r1, w1)" by force
  show ?thesis
  proof (cases r1)
    case (Inl e)
    with item assms have "r = Inl e" "w' = w1" by (auto simp: io_bind_def)
    with item Inl that(1) show ?thesis by simp
  next
    case (Inr x)
    obtain go acc' where x: "x = (go, acc')" by (cases x)
    show ?thesis
    proof (cases go)
      case True
      with item Inr x assms have "batch_loop cfg rest acc' w1 = (r, w')" by (simp add: io_bind_def)
      with item Inr x True that(3) show ?thesis by simp
    next
      case False
      with item Inr x assms have "r = Inr acc'" "w' = w1" by (auto simp: io_bind_def io_return_def)
      with item Inr x False that(2) show ?thesis by simp
    qed
  qed
qed


text \<open>The command lines run are those of a prefix of the names.\<close>

lemma batch_loop_runs:
  "batch_loop cfg names acc w = (r, w') \<Longrightarrow>
     \<exists>evs k. trace w' = trace w @ evs \<and> k \<le> length names
       \<and> map fst (runs evs) = map (batch_command cfg) (take k names)"
proof (induction names arbitrary: acc w)
  case Nil
  then show ?case by (auto simp: io_return_def)
next
  case (Cons n names)
  obtain s0 f0 where acc: "acc = (s0, f0)" by (cases acc)
  from Cons.prems show ?case
  proof (cases rule: batch_loop_step)
    case (1 e)
    from batch_item_outcome[OF 1(1)[unfolded acc]] obtain evs where
      "trace w' = trace w @ evs" "map fst (runs evs) = [] \<or> map fst (runs evs) = [batch_command cfg n]"
      by auto
    then show ?thesis
      by (auto intro: exI[of _ 0] exI[of _ "Suc 0"])
  next
    case (2 acc')
    obtain s' f' where acc': "acc' = (s', f')" by (cases acc')
    from batch_item_outcome[OF 2(1)[unfolded acc acc']] obtain evs where
      "trace w' = trace w @ evs" "map fst (runs evs) = [batch_command cfg n]"
      by auto
    then show ?thesis
      by (auto intro: exI[of _ "Suc 0"])
  next
    case (3 acc' w1)
    obtain s' f' where acc': "acc' = (s', f')" by (cases acc')
    from batch_item_outcome[OF 3(1)[unfolded acc acc']] obtain evs1 where
      e1: "trace w1 = trace w @ evs1" "map fst (runs evs1) = [batch_command cfg n]"
      by auto
    from Cons.IH[OF 3(2)] obtain evs2 k where
      e2: "trace w' = trace w1 @ evs2" "k \<le> length names"
        "map fst (runs evs2) = map (batch_command cfg) (take k names)" by blast
    show ?thesis
      using e1 e2 by (intro exI[of _ "evs1 @ evs2"] exI[of _ "Suc k"]) simp
  qed
qed


lemmas demo_defs = demo_world_def demo_config_def tool_always_ok_def tool_fails_on_def accepts_all_def

lemmas run_defs = batch_item_def batch_command_def subprocess_run_def Confirm_ask_def ask_def confirm_process_def
   console_print_f_def markup_checked_def py_strip_def py_isspace_def py_lower_def py_lower_char_def Let_def


lemma batch_command_inj: "batch_command cfg x = batch_command cfg y \<Longrightarrow> x = y"
  by (simp add: batch_command_def Let_def)

text \<open>What one item can add to the trace, in the three ways the loop can go on from it.\<close>

lemma batch_item_stops:
  assumes "batch_item cfg n (s0, f0) w = (r, w')" and "\<not> (\<exists>acc. r = Inr (True, acc))"
  shows "\<exists>evs. trace w' = trace w @ evs \<and> fst ` set (runs evs) \<subseteq> {batch_command cfg n}
     \<and> (\<forall>out err. (batch_command cfg n, Exited 0 out err) \<notin> set (runs evs))
     \<and> ((\<exists>rc out err. rc \<noteq> 0 \<and> runs evs = [(batch_command cfg n, Exited rc out err)]
            \<and> answers ''An error occurred. Continue with the next application?'' evs = [''n'']
            \<and> r = Inr (False, s0, f0 @ [(n, py_strip err)]))
        \<or> (answers ''An error occurred. Continue with the next application?'' evs = []
            \<and> (\<exists>e. r = Inl e)))"
proof -
  from batch_item_outcome[OF assms(1)] obtain evs where t: "trace w' = trace w @ evs"
    and o: "(runs evs = [] \<and> answers ''An error occurred. Continue with the next application?'' evs = []
         \<and> r = Inl MarkupError)
      \<or> (runs evs = [(batch_command cfg n, NotFound)]
         \<and> answers ''An error occurred. Continue with the next application?'' evs = []
         \<and> r = Inl FileNotFoundError)
      \<or> (\<exists>out err. runs evs = [(batch_command cfg n, Exited 0 out err)]
         \<and> answers ''An error occurred. Continue with the next application?'' evs = []
         \<and> r = Inr (True, s0 @ [n], f0))
      \<or> (\<exists>rc out err. rc \<noteq> 0 \<and> runs evs = [(batch_command cfg n, Exited rc out err)] \<and>
           ((answers ''An error occurred. Continue with the next application?'' evs = [''n'']
               \<and> r = Inr (False, s0, f0 @ [(n, py_strip err)]))
            \<or> (answers ''An error occurred. Continue with the next application?'' evs = [''y'']
               \<and> r = Inr (True, s0, f0 @ [(n, py_strip err)]))
            \<or> (answers ''An error occurred. Continue with the next application?'' evs = []
               \<and> (\<exists>e. r = Inl e))))"
    by blast
  from o assms(2) t show ?thesis
    by (intro exI[of _ evs]) auto
qed

lemma batch_item_goes_on:
  assumes "batch_item cfg n (s0, f0) w = (Inr (True, acc), w')"
  shows "\<exists>evs. trace w' = trace w @ evs \<and>
      ((\<exists>out err. runs evs = [(batch_command cfg n, Exited 0 out err)]
          \<and> answers ''An error occurred. Continue with the next application?'' evs = []
          \<and> acc = (s0 @ [n], f0))
       \<or> (\<exists>rc out err. rc \<noteq> 0 \<and> runs evs = [(batch_command cfg n, Exited rc out err)]
          \<and> answers ''An error occurred. Continue with the next application?'' evs = [''y'']))"
proof -
  from batch_item_outcome[OF assms] obtain evs where t: "trace w' = trace w @ evs"
    and o: "(\<exists>out err. runs evs = [(batch_command cfg n, Exited 0 out err)]
         \<and> answers ''An error occurred. Continue with the next application?'' evs = []
         \<and> acc = (s0 @ [n], f0))
      \<or> (\<exists>rc out err. rc \<noteq> 0 \<and> runs evs = [(batch_command cfg n, Exited rc out err)] \<and>
            answers ''An error occurred. Continue with the next application?'' evs = [''y''])"
    by auto
  from o t show ?thesis
    by (intro exI[of _ evs]) auto
qed

lemma runs_fstD: "(c, x) \<in> set (runs evs) \<Longrightarrow> map fst (runs evs) = cs \<Longrightarrow> c \<in> set cs"
  by force


text \<open>
  Claim C3. Take any batch run over the names a, b, c: any shared configuration, any tool,
  any console and any input. If in that run the invocation for b fails (its command line
  is run and exits with a non-zero status) and the user declines to continue (the one
  answer given to the confirmation, after any invalid answers, is no), then the loop
  returns succeeded = [a] and failed = [(b, error text)], and the command lines run are
  exactly those of a and b: c is never attempted and is in neither list.
\<close>

theorem batch_decline_stops:
  assumes run: "batch_loop cfg [''a'', ''b'', ''c''] ([], []) w = (r, w')"
      and evs: "trace w' = trace w @ evs"
      and b_failed: "(batch_command cfg ''b'', Exited rc out_b err_b) \<in> set (runs evs)"
      and rc: "rc \<noteq> 0"
      and declined: "answers ''An error occurred. Continue with the next application?'' evs = [''n'']"
  shows "r = Inr ([''a''], [(''b'', py_strip err_b)])
       \<and> map fst (runs evs) = [batch_command cfg ''a'', batch_command cfg ''b'']"
proof -
  have ab: "batch_command cfg ''a'' \<noteq> batch_command cfg ''b''"
    and bc: "batch_command cfg ''b'' \<noteq> batch_command cfg ''c''"
    by (auto dest: batch_command_inj)
  have a_goes_on: "\<exists>acc w1. batch_item cfg ''a'' ([], []) w = (Inr (True, acc), w1)
      \<and> batch_loop cfg [''b'', ''c''] acc w1 = (r, w')"
    using run
  proof (cases rule: batch_loop_step)
    case (1 e)
    from batch_item_stops[OF 1(1)] obtain evs1 where "trace w' = trace w @ evs1"
      "fst ` set (runs evs1) \<subseteq> {batch_command cfg ''a''}" by auto
    with evs b_failed ab have False by (auto simp: image_subset_iff)
    then show ?thesis ..
  next
    case (2 acc')
    from batch_item_stops[OF 2(1)] obtain evs1 where "trace w' = trace w @ evs1"
      "fst ` set (runs evs1) \<subseteq> {batch_command cfg ''a''}" by auto
    with evs b_failed ab have False by (auto simp: image_subset_iff)
    then show ?thesis ..
  next
    case (3 acc' w1)
    then show ?thesis by blast
  qed
  then obtain acc1 w1 where item_a: "batch_item cfg ''a'' ([], []) w = (Inr (True, acc1), w1)"
    and rest1: "batch_loop cfg [''b'', ''c''] acc1 w1 = (r, w')" by blast
  from batch_loop_runs[OF rest1] obtain evs23 where t23: "trace w' = trace w1 @ evs23" by blast
  from batch_item_goes_on[OF item_a] obtain evs1 where t1: "trace w1 = trace w @ evs1"
    and o1: "(\<exists>out err. runs evs1 = [(batch_command cfg ''a'', Exited 0 out err)]
          \<and> answers ''An error occurred. Continue with the next application?'' evs1 = []
          \<and> acc1 = ([] @ [''a''], []))
       \<or> (\<exists>rc out err. rc \<noteq> 0 \<and> runs evs1 = [(batch_command cfg ''a'', Exited rc out err)]
          \<and> answers ''An error occurred. Continue with the next application?'' evs1 = [''y''])"
    by blast
  from t1 t23 evs have e1: "evs = evs1 @ evs23" by simp
  from o1 declined e1 have a1: "map fst (runs evs1) = [batch_command cfg ''a'']"
    and n1: "answers ''An error occurred. Continue with the next application?'' evs1 = []"
    and acc1: "acc1 = ([''a''], [])"
    by auto
  from declined e1 n1
  have declined23: "answers ''An error occurred. Continue with the next application?'' evs23 = [''n'']"
    by simp
  have "(batch_command cfg ''b'', Exited rc out_b err_b) \<notin> set (runs evs1)"
    using runs_fstD[OF _ a1, of "batch_command cfg ''b''"] ab by auto
  with b_failed e1 have b23: "(batch_command cfg ''b'', Exited rc out_b err_b) \<in> set (runs evs23)"
    by simp
  from rest1[unfolded acc1] show ?thesis
  proof (cases rule: batch_loop_step)
    case (1 e)
    from batch_item_stops[OF 1(1)] 1(2) obtain evs2 where "trace w' = trace w1 @ evs2"
      "answers ''An error occurred. Continue with the next application?'' evs2 = []" by auto
    with t23 declined23 have False by simp
    then show ?thesis ..
  next
    case (2 acc')
    from batch_item_stops[OF 2(1)] obtain evs2 rc' out' err' where t2: "trace w' = trace w1 @ evs2"
      and r2: "runs evs2 = [(batch_command cfg ''b'', Exited rc' out' err')]"
      and acc': "acc' = ([''a''], [] @ [(''b'', py_strip err')])" by auto
    from t2 t23 have "evs23 = evs2" by simp
    with b23 r2 have "err' = err_b" by simp
    with acc' 2(2) r2 a1 e1 \<open>evs23 = evs2\<close> show ?thesis by simp
  next
    case (3 acc' w2)
    from batch_loop_runs[OF 3(2)] obtain evs3 k where t3: "trace w' = trace w2 @ evs3"
      and r3: "map fst (runs evs3) = map (batch_command cfg) (take k [''c''])" by blast
    from batch_item_goes_on[OF 3(1)] obtain evs2 where t2: "trace w2 = trace w1 @ evs2"
      and o2: "(\<exists>out err. runs evs2 = [(batch_command cfg ''b'', Exited 0 out err)]
          \<and> answers ''An error occurred. Continue with the next application?'' evs2 = []
          \<and> acc' = ([''a''] @ [''b''], []))
       \<or> (\<exists>rc out err. rc \<noteq> 0 \<and> runs evs2 = [(batch_command cfg ''b'', Exited rc out err)]
          \<and> answers ''An error occurred. Continue with the next application?'' evs2 = [''y''])"
      by blast
    from t2 t3 t23 have e23: "evs23 = evs2 @ evs3" by simp
    have c3: "c = batch_command cfg ''c''" if "(c, x) \<in> set (runs evs3)" for c x
      using runs_fstD[OF that r3] by (cases k) auto
    from o2 have False
    proof
      assume "\<exists>out err. runs evs2 = [(batch_command cfg ''b'', Exited 0 out err)]
          \<and> answers ''An error occurred. Continue with the next application?'' evs2 = []
          \<and> acc' = ([''a''] @ [''b''], [])"
      then obtain out err where "runs evs2 = [(batch_command cfg ''b'', Exited 0 out err)]" by blast
      with b23 e23 bc rc show False
        using c3[of "batch_command cfg ''b''" "Exited rc out_b err_b"] by auto
    next
      assume "\<exists>rc out err. rc \<noteq> 0 \<and> runs evs2 = [(batch_command cfg ''b'', Exited rc out err)]
          \<and> answers ''An error occurred. Continue with the next application?'' evs2 = [''y'']"
      with declined23 e23 show False by auto
    qed
    then show ?thesis ..
  qed
qed

theorem batch_decline_stops_witness:
  "batch_loop (demo_config ''dev'') [''a'', ''b'', ''c''] ([], []) (demo_world (tool_fails_on ''b'') [Line ''maybe'', Line ''n''])
     = (Inr ([''a''], [(''b'', ''already exists'')]), snd (batch_loop (demo_config ''dev'') [''a'', ''b'', ''c''] ([], []) (demo_world (tool_fails_on ''b'') [Line ''maybe'', Line ''n''])))
   \<and> trace (snd (batch_loop (demo_config ''dev'') [''a'', ''b'', ''c''] ([], []) (demo_world (tool_fails_on ''b'') [Line ''maybe'', Line ''n'']))) = trace (demo_world (tool_fails_on ''b'') [Line ''maybe'', Line ''n'']) @ trace (snd (batch_loop (demo_config ''dev'') [''a'', ''b'', ''c''] ([], []) (demo_world (tool_fails_on ''b'') [Line ''maybe'', Line ''n''])))
   \<and> (batch_command (demo_config ''dev'') ''b'', Exited 1 [] ''already exists\<newline>'')
        \<in> set (runs (trace (snd (batch_loop (demo_config ''dev'') [''a'', ''b'', ''c''] ([], []) (demo_world (tool_fails_on ''b'') [Line ''maybe'', Line ''n''])))))
   \<and> (1::int) \<noteq> 0
   \<and> answers ''An error occurred. Continue with the next application?'' (trace (snd (batch_loop (demo_config ''dev'') [''a'', ''b'', ''c''] ([], []) (demo_world (tool_fails_on ''b'') [Line ''maybe'', Line ''n''])))) = [''n'']
   \<and> map fst (runs (trace (snd (batch_loop (demo_config ''dev'') [''a'', ''b'', ''c''] ([], []) (demo_world (tool_fails_on ''b'') [Line ''maybe'', Line ''n''])))))
        = [batch_command (demo_config ''dev'') ''a'', batch_command (demo_config ''dev'') ''b'']"
proof -
  have run: "batch_loop (demo_config ''dev'') [''a'', ''b'', ''c''] ([], []) (demo_world (tool_fails_on ''b'') [Line ''maybe'', Line ''n''])
     = (Inr ([''a''], [(''b'', ''already exists'')]), snd (batch_loop (demo_config ''dev'') [''a'', ''b'', ''c''] ([], []) (demo_world (tool_fails_on ''b'') [Line ''maybe'', Line ''n''])))"
    by (simp add: demo_defs run_defs io_defs)
  have t: "trace (snd (batch_loop (demo_config ''dev'') [''a'', ''b'', ''c''] ([], []) (demo_world (tool_fails_on ''b'') [Line ''maybe'', Line ''n'']))) = trace (demo_world (tool_fails_on ''b'') [Line ''maybe'', Line ''n'']) @ trace (snd (batch_loop (demo_config ''dev'') [''a'', ''b'', ''c''] ([], []) (demo_world (tool_fails_on ''b'') [Line ''maybe'', Line ''n''])))"
    by (simp add: demo_world_def)
  have b: "(batch_command (demo_config ''dev'') ''b'', Exited 1 [] ''already exists\<newline>'')
        \<in> set (runs (trace (snd (batch_loop (demo_config ''dev'') [''a'', ''b'', ''c''] ([], []) (demo_world (tool_fails_on ''b'') [Line ''maybe'', Line ''n''])))))"
    by (simp add: demo_defs run_defs io_defs)
  have n: "answers ''An error occurred. Continue with the next application?'' (trace (snd (batch_loop (demo_config ''dev'') [''a'', ''b'', ''c''] ([], []) (demo_world (tool_fails_on ''b'') [Line ''maybe'', Line ''n''])))) = [''n'']"
    by (simp add: demo_defs run_defs io_defs)
  from batch_decline_stops[OF run t b _ n] run t b n show ?thesis by simp
qed






lemma set_py_strip: "set (py_strip s) \<subseteq> set s"
  unfolding py_strip_def by (auto dest!: set_dropWhileD)

lemma py_strip_all_space:
  assumes "\<forall>c\<in>set s. py_isspace c"
  shows "py_strip s = []"
  using assms by (auto simp: py_strip_def dest: set_dropWhileD)

lemma split_acc_blank:
  "\<forall>c\<in>set s. c = sep \<or> py_isspace c \<Longrightarrow> \<forall>c\<in>set acc. py_isspace c \<Longrightarrow>
     f \<in> set (split_acc sep acc s) \<Longrightarrow> c \<in> set f \<Longrightarrow> py_isspace c"
proof (induction sep acc s rule: split_acc.induct)
  case (1 sep acc)
  then show ?case by simp
next
  case (2 sep acc x xs)
  show ?case
  proof (cases "x = sep")
    case True
    with 2 show ?thesis by (cases "f = rev acc") auto
  next
    case False
    with 2 show ?thesis by simp
  qed
qed

lemma batch_names_blank:
  assumes "\<forall>c\<in>set s. c = CHR '','' \<or> py_isspace c"
  shows "batch_names s = []"
proof -
  have "py_strip f = []" if "f \<in> set (py_split (CHR '','') s)" for f
  proof (rule py_strip_all_space, rule ballI)
    fix c assume "c \<in> set f"
    with that show "py_isspace c"
      using split_acc_blank[OF assms, of "[]" f c] by (simp add: py_split_def)
  qed
  then show ?thesis
    by (simp add: batch_names_def filter_empty_conv)
qed

lemma batch_abort:
  assumes "stdin w = Line l # rest" "batch_names (py_strip l) = []"
  shows "create_application_batch w = (Inr (), w\<lparr>stdin := rest, trace := trace w @
     [Print ''\<newline>[bold]Create a Batch of ArgoCD Applications[/bold]'',
      Prompted ''Enter application names (comma-separated)'',
      Answered ''Enter application names (comma-separated)'' (py_strip l),
      Print ''[yellow]No application names entered. Aborting.[/yellow]'']\<rparr>)"
  using assms
  by (simp add: create_application_batch_def io_defs Prompt_ask_def ask_def prompt_process_def Let_def)

text \<open>
  Claim C10. The names of a batch are the fragments between the commas of the input, each
  stripped of surrounding whitespace, without the fragments that are empty after
  stripping. When the line typed consists of commas and whitespace only, no name remains
  and the operation prints a message and returns: it has asked for nothing but the names
  and has run no command.
\<close>

theorem batch_names_and_abort:
  "batch_names s = filter (\<lambda>n. n \<noteq> []) (map py_strip (py_split (CHR '','') s))
   \<and> (stdin w = Line l # rest \<and> (\<forall>c\<in>set l. c = CHR '','' \<or> py_isspace c) \<longrightarrow>
        batch_names (py_strip l) = []
        \<and> create_application_batch w = (Inr (), w\<lparr>stdin := rest, trace := trace w @
           [Print ''\<newline>[bold]Create a Batch of ArgoCD Applications[/bold]'',
            Prompted ''Enter application names (comma-separated)'',
            Answered ''Enter application names (comma-separated)'' (py_strip l),
            Print ''[yellow]No application names entered. Aborting.[/yellow]'']\<rparr>))"
proof (intro conjI impI)
  show "batch_names s = filter (\<lambda>n. n \<noteq> []) (map py_strip (py_split (CHR '','') s))"
    by (simp add: batch_names_def filter_map comp_def)
next
  assume h: "stdin w = Line l # rest \<and> (\<forall>c\<in>set l. c = CHR '','' \<or> py_isspace c)"
  then have "\<forall>c\<in>set (py_strip l). c = CHR '','' \<or> py_isspace c"
    using set_py_strip[of l] by blast
  then show e: "batch_names (py_strip l) = []" by (rule batch_names_blank)
  from h e show "create_application_batch w = (Inr (), w\<lparr>stdin := rest, trace := trace w @
           [Print ''\<newline>[bold]Create a Batch of ArgoCD Applications[/bold]'',
            Prompted ''Enter application names (comma-separated)'',
            Answered ''Enter application names (comma-separated)'' (py_strip l),
            Print ''[yellow]No application names entered. Aborting.[/yellow]'']\<rparr>)"
    by (intro batch_abort) simp_all
qed

theorem batch_names_and_abort_witness:
  "batch_names '' web , ,api,,  '' = [''web'', ''api'']
   \<and> stdin (demo_world tool_always_ok [Line '' , ,'', Line ''x'']) = Line '' , ,'' # [Line ''x'']
   \<and> list_all (\<lambda>c. c = CHR '','' \<or> py_isspace c) '' , ,''
   \<and> batch_names (py_strip '' , ,'') = []
   \<and> create_application_batch (demo_world tool_always_ok [Line '' , ,'', Line ''x'']) =
       (Inr (), \<lparr>env = Map.empty, tool = tool_always_ok, markup = accepts_all, stdin = [Line ''x''], trace =
           [Print ''\<newline>[bold]Create a Batch of ArgoCD Applications[/bold]'',
            Prompted ''Enter application names (comma-separated)'',
            Answered ''Enter application names (comma-separated)'' '', ,'',
            Print ''[yellow]No application names entered. Aborting.[/yellow]'']\<rparr>)"
  using batch_names_and_abort[of "'' web , ,api,,  ''" "demo_world tool_always_ok [Line '' , ,'', Line ''x'']"
      "'' , ,''" "[Line ''x'']"]
  by (simp add: demo_world_def py_split_def py_strip_def py_isspace_def)

section \<open>Properties of the two lists\<close>

text \<open>
  Claim C8. When the tool exits with status 0 and its output decodes to the empty array,
  each of the two list operations prints its message that nothing was found and returns:
  no table is printed and no parse error is reported. When the output does not decode, it
  logs and prints the parse error, a message different from the first, and returns.
\<close>

theorem list_empty_and_malformed:
  "(tool w (ran_commands (trace w)) [''argocd'', ''repo'', ''list'', ''-o'', ''json''] = Exited 0 out err
      \<and> loads out = Some (JArr []) \<longrightarrow>
    list_repositories loads w = (Inr (), w\<lparr>trace := trace w @
      [Print ''\<newline>[bold]Fetching Repositories...[/bold]'',
       Ran [''argocd'', ''repo'', ''list'', ''-o'', ''json''] (Exited 0 out err),
       Print ''No repositories found.'']\<rparr>))
   \<and> (tool w (ran_commands (trace w)) [''argocd'', ''repo'', ''list'', ''-o'', ''json''] = Exited 0 out err
      \<and> loads out = None \<longrightarrow>
    list_repositories loads w = (Inr (), w\<lparr>trace := trace w @
      [Print ''\<newline>[bold]Fetching Repositories...[/bold]'',
       Ran [''argocd'', ''repo'', ''list'', ''-o'', ''json''] (Exited 0 out err),
       LogError ''Failed to parse JSON from argocd CLI output.'',
       Print ''[red]Error: Could not parse the data received from the ArgoCD CLI.[/red]'']\<rparr>))
   \<and> (tool w (ran_commands (trace w)) [''argocd'', ''app'', ''list'', ''-o'', ''json''] = Exited 0 out err
      \<and> loads out = Some (JArr []) \<longrightarrow>
    list_applications loads w = (Inr (), w\<lparr>trace := trace w @
      [Print ''\<newline>[bold]Fetching Applications...[/bold]'',
       Ran [''argocd'', ''app'', ''list'', ''-o'', ''json''] (Exited 0 out err),
       Print ''No applications found.'']\<rparr>))
   \<and> (tool w (ran_commands (trace w)) [''argocd'', ''app'', ''list'', ''-o'', ''json''] = Exited 0 out err
      \<and> loads out = None \<longrightarrow>
    list_applications loads w = (Inr (), w\<lparr>trace := trace w @
      [Print ''\<newline>[bold]Fetching Applications...[/bold]'',
       Ran [''argocd'', ''app'', ''list'', ''-o'', ''json''] (Exited 0 out err),
       LogError ''Failed to parse JSON from argocd CLI output.'',
       Print ''[red]Error: Could not parse the data received from the ArgoCD CLI.[/red]'']\<rparr>))"
proof (intro conjI impI)
  assume "tool w (ran_commands (trace w)) [''argocd'', ''repo'', ''list'', ''-o'', ''json''] = Exited 0 out err
      \<and> loads out = Some (JArr [])"
  then show "list_repositories loads w = (Inr (), w\<lparr>trace := trace w @
      [Print ''\<newline>[bold]Fetching Repositories...[/bold]'',
       Ran [''argocd'', ''repo'', ''list'', ''-o'', ''json''] (Exited 0 out err),
       Print ''No repositories found.'']\<rparr>)"
    by (simp add: list_repositories_def io_defs subprocess_run_def json_loads_def Let_def)
next
  assume "tool w (ran_commands (trace w)) [''argocd'', ''repo'', ''list'', ''-o'', ''json''] = Exited 0 out err
      \<and> loads out = None"
  then show "list_repositories loads w = (Inr (), w\<lparr>trace := trace w @
      [Print ''\<newline>[bold]Fetching Repositories...[/bold]'',
       Ran [''argocd'', ''repo'', ''list'', ''-o'', ''json''] (Exited 0 out err),
       LogError ''Failed to parse JSON from argocd CLI output.'',
       Print ''[red]Error: Could not parse the data received from the ArgoCD CLI.[/red]'']\<rparr>)"
    by (simp add: list_repositories_def io_defs subprocess_run_def json_loads_def parse_handler_def Let_def)
next
  assume "tool w (ran_commands (trace w)) [''argocd'', ''app'', ''list'', ''-o'', ''json''] = Exited 0 out err
      \<and> loads out = Some (JArr [])"
  then show "list_applications loads w = (Inr (), w\<lparr>trace := trace w @
      [Print ''\<newline>[bold]Fetching Applications...[/bold]'',
       Ran [''argocd'', ''app'', ''list'', ''-o'', ''json''] (Exited 0 out err),
       Print ''No applications found.'']\<rparr>)"
    by (simp add: list_applications_def io_defs subprocess_run_def json_loads_def Let_def)
next
  assume "tool w (ran_commands (trace w)) [''argocd'', ''app'', ''list'', ''-o'', ''json''] = Exited 0 out err
      \<and> loads out = None"
  then show "list_applications loads w = (Inr (), w\<lparr>trace := trace w @
      [Print ''\<newline>[bold]Fetching Applications...[/bold]'',
       Ran [''argocd'', ''app'', ''list'', ''-o'', ''json''] (Exited 0 out err),
       LogError ''Failed to parse JSON from argocd CLI output.'',
       Print ''[red]Error: Could not parse the data received from the ArgoCD CLI.[/red]'']\<rparr>)"
    by (simp add: list_applications_def io_defs subprocess_run_def json_loads_def parse_handler_def Let_def)
qed

theorem list_empty_and_malformed_witness:
  "tool (demo_world (tool_prints ''[]'') []) (ran_commands (trace (demo_world (tool_prints ''[]'') [])))
       [''argocd'', ''repo'', ''list'', ''-o'', ''json''] = Exited 0 ''[]'' []
   \<and> tool (demo_world (tool_prints ''[]'') []) (ran_commands (trace (demo_world (tool_prints ''[]'') [])))
       [''argocd'', ''app'', ''list'', ''-o'', ''json''] = Exited 0 ''[]'' []
   \<and> demo_loads ''[]'' = Some (JArr [])
   \<and> trace (snd (list_repositories demo_loads (demo_world (tool_prints ''[]'') []))) =
      [Print ''\<newline>[bold]Fetching Repositories...[/bold]'',
       Ran [''argocd'', ''repo'', ''list'', ''-o'', ''json''] (Exited 0 ''[]'' []),
       Print ''No repositories found.'']
   \<and> trace (snd (list_applications demo_loads (demo_world (tool_prints ''[]'') []))) =
      [Print ''\<newline>[bold]Fetching Applications...[/bold]'',
       Ran [''argocd'', ''app'', ''list'', ''-o'', ''json''] (Exited 0 ''[]'' []),
       Print ''No applications found.'']
   \<and> tool (demo_world (tool_prints ''<html>'') []) (ran_commands (trace (demo_world (tool_prints ''<html>'') [])))
       [''argocd'', ''repo'', ''list'', ''-o'', ''json''] = Exited 0 ''<html>'' []
   \<and> tool (demo_world (tool_prints ''<html>'') []) (ran_commands (trace (demo_world (tool_prints ''<html>'') [])))
       [''argocd'', ''app'', ''list'', ''-o'', ''json''] = Exited 0 ''<html>'' []
   \<and> demo_loads ''<html>'' = None
   \<and> trace (snd (list_repositories demo_loads (demo_world (tool_prints ''<html>'') []))) =
      [Print ''\<newline>[bold]Fetching Repositories...[/bold]'',
       Ran [''argocd'', ''repo'', ''list'', ''-o'', ''json''] (Exited 0 ''<html>'' []),
       LogError ''Failed to parse JSON from argocd CLI output.'',
       Print ''[red]Error: Could not parse the data received from the ArgoCD CLI.[/red]'']
   \<and> trace (snd (list_applications demo_loads (demo_world (tool_prints ''<html>'') []))) =
      [Print ''\<newline>[bold]Fetching Applications...[/bold]'',
       Ran [''argocd'', ''app'', ''list'', ''-o'', ''json''] (Exited 0 ''<html>'' []),
       LogError ''Failed to parse JSON from argocd CLI output.'',
       Print ''[red]Error: Could not parse the data received from the ArgoCD CLI.[/red]'']"
  using list_empty_and_malformed[of "demo_world (tool_prints ''[]'') []" "''[]''" "[]" demo_loads]
    list_empty_and_malformed[of "demo_world (tool_prints ''<html>'') []" "''<html>''" "[]" demo_loads]
  by (simp add: demo_world_def tool_prints_def demo_loads_def)

end
